theory Spec2Isabelle
  imports Complex_Main
begin

section \<open>Python values handed over by the tree parser\<close>

text \<open>
  The normalisation module (\<^verbatim>\<open>src/parsers/normalize.py\<close>) walks the untyped tree that
  \<^verbatim>\<open>xmltodict\<close> builds: dictionaries, lists, text and \<^verbatim>\<open>None\<close>.  The code is
  duck-typed, so the model keeps every kind of value the functions can be handed,
  numbers and booleans included.

  \<^item> A dictionary is an association list in insertion order.  Python dictionaries have
    distinct keys; \<open>dict_get\<close> reads the first entry of a key and \<open>dict_set\<close> overwrites
    it in place, as \<^verbatim>\<open>d[k] = v\<close> does.
  \<^item> Text is a \<open>string\<close>.  A character beyond ASCII is written as its UTF-8 bytes;
    \<^verbatim>\<open>lower\<close> and \<^verbatim>\<open>strip\<close> are modelled on the ASCII range.
  \<^item> A float is the rational it denotes, or one of the three special values.  Rounding to
    binary64 is not modelled; overflow to infinity and underflow to zero are.
\<close>

datatype pyfloat = Fin rat | PosInf | NegInf | NaN

datatype pyval =
    PNone
  | PBool bool
  | PInt int
  | PFloat pyfloat
  | PStr string
  | PList "pyval list"
  | PDict "(string \<times> pyval) list"

datatype error = AttributeError | TypeError | KeyError | OverflowError | ZeroDivisionError

type_synonym 'a result = "error + 'a"

definition ebind :: "'a result \<Rightarrow> ('a \<Rightarrow> 'b result) \<Rightarrow> 'b result" where
  "ebind m f = (case m of Inl e \<Rightarrow> Inl e | Inr x \<Rightarrow> f x)"

subsection \<open>Dictionaries, truthiness, lists\<close>

definition dict_get :: "(string \<times> 'v) list \<Rightarrow> string \<Rightarrow> 'v \<Rightarrow> 'v" where
  \<comment> \<open>\<^verbatim>\<open>d.get(k, default)\<close> on a dictionary\<close>
  "dict_get d k dflt = (case map_of d k of None \<Rightarrow> dflt | Some v \<Rightarrow> v)"

abbreviation dget :: "(string \<times> pyval) list \<Rightarrow> string \<Rightarrow> pyval" where
  \<comment> \<open>\<^verbatim>\<open>d.get(k)\<close>\<close>
  "dget d k \<equiv> dict_get d k PNone"

fun dict_set :: "(string \<times> 'v) list \<Rightarrow> string \<Rightarrow> 'v \<Rightarrow> (string \<times> 'v) list" where
  \<comment> \<open>\<^verbatim>\<open>d[k] = v\<close>: an existing key keeps its position, a new key goes last\<close>
  "dict_set [] k v = [(k, v)]"
| "dict_set ((k', v') # d) k v = (if k' = k then (k, v) # d else (k', v') # dict_set d k v)"

definition dict_has :: "(string \<times> 'v) list \<Rightarrow> string \<Rightarrow> bool" where
  \<comment> \<open>\<^verbatim>\<open>k in d\<close> on a dictionary\<close>
  "dict_has d k = (map_of d k \<noteq> None)"

fun py_truthy :: "pyval \<Rightarrow> bool" where
  "py_truthy PNone = False"
| "py_truthy (PBool b) = b"
| "py_truthy (PInt i) = (i \<noteq> 0)"
| "py_truthy (PFloat f) = (f \<noteq> Fin 0)"
| "py_truthy (PStr s) = (s \<noteq> [])"
| "py_truthy (PList xs) = (xs \<noteq> [])"
| "py_truthy (PDict d) = (d \<noteq> [])"

definition py_or :: "pyval \<Rightarrow> pyval \<Rightarrow> pyval" where
  \<comment> \<open>\<^verbatim>\<open>a or b\<close>\<close>
  "py_or a b = (if py_truthy a then a else b)"

fun ensure_list :: "pyval \<Rightarrow> pyval list" where
  "ensure_list PNone = []"
| "ensure_list (PList xs) = xs"
| "ensure_list v = [v]"

definition py_get :: "pyval \<Rightarrow> string \<Rightarrow> pyval result" where
  \<comment> \<open>\<^verbatim>\<open>obj.get(k)\<close> on a value nobody checked: only a dictionary has \<^verbatim>\<open>get\<close>\<close>
  "py_get obj k = (case obj of PDict d \<Rightarrow> Inr (dget d k) | _ \<Rightarrow> Inl AttributeError)"

subsection \<open>Text\<close>

definition is_digit :: "char \<Rightarrow> bool" where
  "is_digit c = (48 \<le> (of_char c :: nat) \<and> (of_char c :: nat) \<le> 57)"

definition digit_val :: "char \<Rightarrow> nat" where
  "digit_val c = of_char c - 48"

definition is_space :: "char \<Rightarrow> bool" where
  \<comment> \<open>the ASCII characters \<^verbatim>\<open>str.isspace\<close> accepts: TAB..CR, FS..US, SPACE\<close>
  "is_space c = (let n = (of_char c :: nat) in (9 \<le> n \<and> n \<le> 13) \<or> (28 \<le> n \<and> n \<le> 32))"

definition lower_char :: "char \<Rightarrow> char" where
  "lower_char c =
     (case map_of (zip ''ABCDEFGHIJKLMNOPQRSTUVWXYZ'' ''abcdefghijklmnopqrstuvwxyz'') c of
        None \<Rightarrow> c | Some l \<Rightarrow> l)"

definition py_lower :: "string \<Rightarrow> string" where
  "py_lower s = map lower_char s"

definition py_strip :: "string \<Rightarrow> string" where
  "py_strip s = rev (dropWhile is_space (rev (dropWhile is_space s)))"

definition lstrip_at :: "string \<Rightarrow> string" where
  \<comment> \<open>\<^verbatim>\<open>s.lstrip("@")\<close>: every leading \<^verbatim>\<open>@\<close> goes\<close>
  "lstrip_at s = dropWhile (\<lambda>c. c = CHR ''@'') s"

definition startswith :: "string \<Rightarrow> string \<Rightarrow> bool" where
  "startswith s p = (take (length p) s = p)"

fun dec_digits :: "nat \<Rightarrow> string" where
  "dec_digits n =
     (if n < 10 then [''0123456789'' ! n]
      else dec_digits (n div 10) @ [''0123456789'' ! (n mod 10)])"

declare dec_digits.simps [simp del]

definition fmt_d :: "nat \<Rightarrow> nat \<Rightarrow> string" where
  \<comment> \<open>the format specification \<^verbatim>\<open>{idx:0Wd}\<close> on an index that is never negative\<close>
  "fmt_d w n = (let s = dec_digits n in replicate (w - length s) (CHR ''0'') @ s)"

definition str_int :: "int \<Rightarrow> string" where
  "str_int i = (if i < 0 then CHR ''-'' # dec_digits (nat (- i)) else dec_digits (nat i))"

definition py_str :: "(pyval \<Rightarrow> string) \<Rightarrow> pyval \<Rightarrow> string" where
  \<comment> \<open>\<^verbatim>\<open>str(v)\<close>, also what an f-string inserts.  The printed form of a float, a list or a
      dictionary is the interpreter's \<^verbatim>\<open>repr\<close>, taken as the parameter \<open>rp\<close>.\<close>
  "py_str rp v = (case v of
       PNone \<Rightarrow> ''None''
     | PBool b \<Rightarrow> (if b then ''True'' else ''False'')
     | PInt i \<Rightarrow> str_int i
     | PStr s \<Rightarrow> s
     | _ \<Rightarrow> rp v)"

subsection \<open>The builtin \<^verbatim>\<open>float\<close>\<close>

definition float_overflow_bound :: rat where
  \<comment> \<open>half-way between the largest binary64 value and \<open>2 ^ 1024\<close>: from here on a
      magnitude rounds out of range\<close>
  "float_overflow_bound = 2 ^ 1024 - 2 ^ 970"

definition float_underflow_bound :: rat where
  \<comment> \<open>half of the smallest subnormal: up to here a magnitude rounds to zero\<close>
  "float_underflow_bound = 1 / 2 ^ 1075"

definition round_range :: "rat \<Rightarrow> pyfloat" where
  "round_range q =
     (if float_overflow_bound \<le> \<bar>q\<bar> then (if 0 < q then PosInf else NegInf)
      else if \<bar>q\<bar> \<le> float_underflow_bound then Fin 0
      else Fin q)"

definition float_of_int :: "int \<Rightarrow> pyfloat result" where
  \<comment> \<open>\<^verbatim>\<open>float(i)\<close> raises OverflowError on an integer too large for a float\<close>
  "float_of_int i =
     (if float_overflow_bound \<le> \<bar>of_int i\<bar> then Inl OverflowError else Inr (Fin (of_int i)))"

fun strip_underscores :: "char option \<Rightarrow> string \<Rightarrow> string option" where
  \<comment> \<open>an underscore is accepted only between two digits\<close>
  "strip_underscores prev [] = Some []"
| "strip_underscores prev (c # cs) =
     (if c = CHR ''_'' then
        (case (prev, cs) of
           (Some p, d # _) \<Rightarrow>
             if is_digit p \<and> is_digit d then strip_underscores (Some c) cs else None
         | _ \<Rightarrow> None)
      else map_option ((#) c) (strip_underscores (Some c) cs))"

definition digits_val :: "string \<Rightarrow> nat" where
  "digits_val ds = foldl (\<lambda>a c. 10 * a + digit_val c) 0 ds"

definition split_sign :: "string \<Rightarrow> bool \<times> string" where
  "split_sign s = (case s of
       c # cs \<Rightarrow> if c = CHR ''+'' then (False, cs) else if c = CHR ''-'' then (True, cs) else (False, s)
     | [] \<Rightarrow> (False, []))"

definition parse_exponent :: "string \<Rightarrow> int option" where
  \<comment> \<open>what follows the mantissa: nothing, or \<^verbatim>\<open>e\<close>, an optional sign and digits\<close>
  "parse_exponent s = (case s of
       [] \<Rightarrow> Some 0
     | c # cs \<Rightarrow>
         if c = CHR ''e'' \<or> c = CHR ''E'' then
           (let (neg, ds) = split_sign cs in
            if ds \<noteq> [] \<and> list_all is_digit ds
            then Some (if neg then - int (digits_val ds) else int (digits_val ds))
            else None)
         else None)"

definition parse_decimal :: "string \<Rightarrow> rat option" where
  "parse_decimal s =
     (let ip = takeWhile is_digit s; r1 = dropWhile is_digit s;
          has_dot = (r1 \<noteq> [] \<and> hd r1 = CHR ''.'');
          fp = (if has_dot then takeWhile is_digit (tl r1) else []);
          r2 = (if has_dot then dropWhile is_digit (tl r1) else r1)
      in if ip = [] \<and> fp = [] then None
         else (case parse_exponent r2 of
                 None \<Rightarrow> None
               | Some e \<Rightarrow>
                   Some (of_nat (digits_val (ip @ fp)) / 10 ^ length fp
                         * (if 0 \<le> e then 10 ^ nat e else 1 / 10 ^ nat (- e)))))"

definition float_of_str :: "string \<Rightarrow> pyfloat option" where
  \<comment> \<open>\<^verbatim>\<open>float(text)\<close>; \<open>None\<close> stands for ValueError\<close>
  "float_of_str s =
     (case strip_underscores None (py_strip s) of
        None \<Rightarrow> None
      | Some t \<Rightarrow>
          (let (neg, u) = split_sign t; l = py_lower u in
           if l = ''inf'' \<or> l = ''infinity'' then Some (if neg then NegInf else PosInf)
           else if l = ''nan'' then Some NaN
           else (case parse_decimal u of
                   None \<Rightarrow> None
                 | Some q \<Rightarrow> Some (round_range (if neg then - q else q)))))"

definition float_quot :: "pyfloat \<Rightarrow> pyfloat \<Rightarrow> pyfloat" where
  \<comment> \<open>the quotient of two floats when the divisor is not zero\<close>
  "float_quot a b = (case (a, b) of
       (NaN, _) \<Rightarrow> NaN
     | (_, NaN) \<Rightarrow> NaN
     | (Fin x, Fin y) \<Rightarrow> round_range (x / y)
     | (Fin x, _) \<Rightarrow> Fin 0
     | (PosInf, Fin y) \<Rightarrow> (if 0 < y then PosInf else NegInf)
     | (NegInf, Fin y) \<Rightarrow> (if 0 < y then NegInf else PosInf)
     | (_, _) \<Rightarrow> NaN)"

definition float_div :: "pyfloat \<Rightarrow> pyfloat \<Rightarrow> pyfloat result" where
  \<comment> \<open>\<^verbatim>\<open>a / b\<close> on two floats: a zero divisor raises\<close>
  "float_div a b = (if b = Fin 0 then Inl ZeroDivisionError else Inr (float_quot a b))"

definition is_number :: "pyval \<Rightarrow> bool" where
  \<comment> \<open>\<^verbatim>\<open>isinstance(value, (int, float))\<close>; a bool is an int\<close>
  "is_number v = (case v of PBool b \<Rightarrow> True | PInt i \<Rightarrow> True | PFloat f \<Rightarrow> True | _ \<Rightarrow> False)"

definition float_of_number :: "pyval \<Rightarrow> pyfloat result" where
  \<comment> \<open>\<^verbatim>\<open>float(value)\<close> on a number\<close>
  "float_of_number v = (case v of
       PBool b \<Rightarrow> Inr (Fin (if b then 1 else 0))
     | PInt i \<Rightarrow> float_of_int i
     | PFloat f \<Rightarrow> Inr f
     | _ \<Rightarrow> Inl TypeError)"

section \<open>Value coercion\<close>

definition infinity_tokens :: "string list" where
  \<comment> \<open>the set literal of \<^verbatim>\<open>safe_float\<close>; the first three are the infinity sign, bare and
      signed, in UTF-8\<close>
  "infinity_tokens =
     [[CHR 0xE2, CHR 0x88, CHR 0x9E],
      [CHR ''+'', CHR 0xE2, CHR 0x88, CHR 0x9E],
      [CHR ''-'', CHR 0xE2, CHR 0x88, CHR 0x9E],
      ''inf'', ''+inf'', ''-inf'']"

definition safe_float :: "(pyval \<Rightarrow> string) \<Rightarrow> pyval \<Rightarrow> pyval result" where
  "safe_float rp v =
     (if v = PNone then Inr PNone
      else if is_number v then ebind (float_of_number v) (\<lambda>f. Inr (PFloat f))
      else
        (let text = py_strip (py_str rp v) in
         if text = [] \<or> py_lower text = ''nan'' then Inr PNone
         else if text \<in> set infinity_tokens then Inr PNone
         else (case float_of_str text of None \<Rightarrow> Inr PNone | Some f \<Rightarrow> Inr (PFloat f))))"

section \<open>Loops that collect rows\<close>

text \<open>
  Every extractor appends row dictionaries to one list while it walks nested loops; an
  exception leaves the function at once.  \<open>for_rows\<close> is such a loop, \<open>for_rows_st\<close>
  the same loop when the body also moves the identifier counters, \<open>efoldl\<close> a loop that
  updates local variables.  A row is the dictionary literal of the source, a table the list
  handed to \<^verbatim>\<open>pd.DataFrame\<close>.
\<close>

type_synonym row = "(string \<times> pyval) list"
type_synonym counters = "(string \<times> int) list"

fun for_rows :: "('a \<Rightarrow> row list result) \<Rightarrow> 'a list \<Rightarrow> row list result" where
  "for_rows body [] = Inr []"
| "for_rows body (x # xs) =
     ebind (body x) (\<lambda>r. ebind (for_rows body xs) (\<lambda>rs. Inr (r @ rs)))"

fun for_rows_st ::
  "('a \<Rightarrow> counters \<Rightarrow> (row list \<times> counters) result) \<Rightarrow> 'a list \<Rightarrow> counters
     \<Rightarrow> (row list \<times> counters) result" where
  "for_rows_st body [] cs = Inr ([], cs)"
| "for_rows_st body (x # xs) cs =
     ebind (body x cs) (\<lambda>(r, cs1).
       ebind (for_rows_st body xs cs1) (\<lambda>(rs, cs2). Inr (r @ rs, cs2)))"

fun efoldl :: "('s \<Rightarrow> 'a \<Rightarrow> 's result) \<Rightarrow> 's \<Rightarrow> 'a list \<Rightarrow> 's result" where
  "efoldl step acc [] = Inr acc"
| "efoldl step acc (x # xs) = ebind (step acc x) (\<lambda>acc1. efoldl step acc1 xs)"

definition py_in :: "string \<Rightarrow> pyval \<Rightarrow> bool result" where
  \<comment> \<open>\<^verbatim>\<open>k in obj\<close>: a key of a dictionary, a substring of a text, an element of a list;
      any other value is not iterable\<close>
  "py_in k obj = (case obj of
       PDict d \<Rightarrow> Inr (dict_has d k)
     | PStr s \<Rightarrow> Inr (list_ex (\<lambda>i. take (length k) (drop i s) = k) [0..<Suc (length s)])
     | PList xs \<Rightarrow> Inr (PStr k \<in> set xs)
     | _ \<Rightarrow> Inl TypeError)"

definition py_getitem :: "pyval \<Rightarrow> string \<Rightarrow> pyval result" where
  \<comment> \<open>\<^verbatim>\<open>obj[k]\<close> with a text key\<close>
  "py_getitem obj k = (case obj of
       PDict d \<Rightarrow> (case map_of d k of None \<Rightarrow> Inl KeyError | Some v \<Rightarrow> Inr v)
     | _ \<Rightarrow> Inl TypeError)"

definition py_truediv :: "pyval \<Rightarrow> pyval \<Rightarrow> pyval result" where
  \<comment> \<open>\<^verbatim>\<open>a / b\<close>; the code only ever divides two floats\<close>
  "py_truediv a b = (case (a, b) of
       (PFloat x, PFloat y) \<Rightarrow> ebind (float_div x y) (\<lambda>q. Inr (PFloat q))
     | _ \<Rightarrow> Inl TypeError)"

definition node_attrs :: "(string \<times> pyval) list \<Rightarrow> (string \<times> pyval) list" where
  \<comment> \<open>\<^verbatim>\<open>{k.lstrip("@"): v for k, v in node.items() if k.startswith("@")}\<close>\<close>
  "node_attrs node =
     foldl (\<lambda>d (k, v). dict_set d (lstrip_at k) v) [] (filter (\<lambda>(k, v). startswith k ''@'') node)"

definition dict_pop :: "(string \<times> pyval) list \<Rightarrow> string \<Rightarrow> pyval \<times> (string \<times> pyval) list" where
  \<comment> \<open>\<^verbatim>\<open>d.pop(k, None)\<close>: the value and the dictionary without the key\<close>
  "dict_pop d k = (dget d k, filter (\<lambda>(k', v). k' \<noteq> k) d)"

section \<open>Identifier policy\<close>

definition ID_COUNTERS :: counters where
  \<comment> \<open>the module-level dictionary as the import leaves it\<close>
  "ID_COUNTERS =
     [(''VT'', 0), (''SETTING'', 0), (''CURVE'', 0), (''POINT'', 0), (''PARAM'', 0), (''SEL'', 0)]"

definition next_counter :: "string \<Rightarrow> counters \<Rightarrow> int \<times> counters" where
  "next_counter kind cs = (let n = dict_get cs kind 0 + 1 in (n, dict_set cs kind n))"

definition make_vt_id ::
  "(pyval \<Rightarrow> string) \<Rightarrow> pyval \<Rightarrow> pyval \<Rightarrow> nat \<Rightarrow> counters \<Rightarrow> pyval \<times> counters" where
  "make_vt_id rp relay_id vt_xml_id idx cs =
     (if py_truthy vt_xml_id then (vt_xml_id, cs)
      else if py_truthy relay_id
      then (PStr (''VT-'' @ py_str rp relay_id @ ''-'' @ fmt_d 2 idx), cs)
      else (let (n, cs1) = next_counter ''VT'' cs
            in (PStr (''VT-AUTO-'' @ fmt_d 6 (nat n)), cs1)))"

definition make_curve_id ::
  "(pyval \<Rightarrow> string) \<Rightarrow> pyval \<Rightarrow> pyval \<Rightarrow> pyval \<Rightarrow> nat \<Rightarrow> counters \<Rightarrow> pyval \<times> counters" where
  "make_curve_id rp relay_id func_id curve_xml_id idx cs =
     (if py_truthy curve_xml_id then (curve_xml_id, cs)
      else if py_truthy relay_id \<and> py_truthy func_id
      then (PStr (''CUR-'' @ py_str rp relay_id @ ''-'' @ py_str rp func_id @ ''-'' @ fmt_d 2 idx), cs)
      else (let (n, cs1) = next_counter ''CURVE'' cs
            in (PStr (''CUR-AUTO-'' @ fmt_d 6 (nat n)), cs1)))"

definition make_point_id :: "(pyval \<Rightarrow> string) \<Rightarrow> pyval \<Rightarrow> nat \<Rightarrow> pyval" where
  "make_point_id rp curve_id idx = PStr (''PT-'' @ py_str rp curve_id @ ''-'' @ fmt_d 3 idx)"

definition make_setting_id :: "(pyval \<Rightarrow> string) \<Rightarrow> pyval \<Rightarrow> pyval \<Rightarrow> pyval" where
  "make_setting_id rp relay_id func_id =
     PStr (''SET-'' @ py_str rp relay_id @ ''-'' @ py_str rp func_id)"

definition make_parameter_id :: "(pyval \<Rightarrow> string) \<Rightarrow> pyval \<Rightarrow> nat \<Rightarrow> pyval" where
  "make_parameter_id rp relay_id idx = PStr (''PAR-'' @ py_str rp relay_id @ ''-'' @ fmt_d 3 idx)"

definition make_selectivity_id ::
  "(pyval \<Rightarrow> string) \<Rightarrow> pyval \<Rightarrow> pyval \<Rightarrow> string \<Rightarrow> nat \<Rightarrow> pyval" where
  "make_selectivity_id rp relay_id func_id direction idx =
     (let dir_code = (if startswith (py_lower direction) ''down'' then ''D'' else ''U'')
      in PStr (''SEL-'' @ py_str rp relay_id @ ''-'' @ py_str rp func_id @ ''-'' @ dir_code
               @ ''-'' @ fmt_d 3 idx))"

section \<open>Relay core, CTs, VTs and function headers\<close>

definition relay_core_row :: "(pyval \<Rightarrow> string) \<Rightarrow> pyval \<Rightarrow> row list result" where
  "relay_core_row rp relay = (case relay of
       PDict r \<Rightarrow>
         ebind (safe_float rp (dget r ''@frequencyHz'')) (\<lambda>frequency_hz.
           Inr [[(''relay_id'', dget r ''@id''),
                 (''manufacturer'', dget r ''@manufacturer''),
                 (''model'', dget r ''@model''),
                 (''series'', dget r ''@series''),
                 (''relay_type'', dget r ''@relayType''),
                 (''voltage_class_kv'', dget r ''@voltageClassKV''),
                 (''frequency_hz'', frequency_hz),
                 (''config_date'', dget r ''@configDate''),
                 (''protected_transformer_id'', dget r ''@protectedTransformerId''),
                 (''protected_feeder_id'', dget r ''@protectedFeederId''),
                 (''protected_load_id'', dget r ''@protectedLoadId'')]])
     | _ \<Rightarrow> Inl AttributeError)"

definition normalize_relays_core :: "(pyval \<Rightarrow> string) \<Rightarrow> pyval list \<Rightarrow> row list result" where
  "normalize_relays_core rp relays = for_rows (relay_core_row rp) relays"

definition ct_ratio :: "pyval \<Rightarrow> pyval \<Rightarrow> pyval" where
  \<comment> \<open>\<^verbatim>\<open>(primary / secondary) if primary and secondary else None\<close>, inside
      \<^verbatim>\<open>try ... except Exception: ratio = None\<close>\<close>
  "ct_ratio primary secondary =
     (if py_truthy primary \<and> py_truthy secondary
      then (case py_truediv primary secondary of Inl e \<Rightarrow> PNone | Inr q \<Rightarrow> q)
      else PNone)"

definition ct_row :: "(pyval \<Rightarrow> string) \<Rightarrow> pyval \<Rightarrow> nat \<times> pyval \<Rightarrow> row list result" where
  \<comment> \<open>the body of the loop over \<^verbatim>\<open>enumerate(ensure_list(cts_block.get("CT")), start=1)\<close>\<close>
  "ct_row rp relay_id ic = (case ic of
       (idx, PDict ct) \<Rightarrow>
         ebind (safe_float rp (dget ct ''@primaryA'')) (\<lambda>primary.
         ebind (safe_float rp (dget ct ''@secondaryA'')) (\<lambda>secondary.
         ebind (safe_float rp (dget ct ''@burdenVA'')) (\<lambda>burden_va.
           Inr [[(''relay_id'', relay_id),
                 (''ct_id'', py_or (dget ct ''@id'')
                                (PStr (''CT-'' @ py_str rp relay_id @ ''-'' @ fmt_d 2 idx))),
                 (''location'', dget ct ''@location''),
                 (''phase'', dget ct ''@phase''),
                 (''primary_a'', primary),
                 (''secondary_a'', secondary),
                 (''ratio'', ct_ratio primary secondary),
                 (''class'', dget ct ''@class''),
                 (''burden_va'', burden_va),
                 (''core_id'', dget ct ''@coreId'')]])))
     | _ \<Rightarrow> Inr [])"

definition cts_of_relay :: "(pyval \<Rightarrow> string) \<Rightarrow> pyval \<Rightarrow> row list result" where
  "cts_of_relay rp relay = (case relay of
       PDict r \<Rightarrow>
         (let relay_id = dget r ''@id''; cts_block = dget r ''CTs'' in
          if \<not> py_truthy cts_block then Inr []
          else ebind (py_get cts_block ''CT'') (\<lambda>cts.
                 for_rows (ct_row rp relay_id) (enumerate 1 (ensure_list cts))))
     | _ \<Rightarrow> Inl AttributeError)"

definition normalize_cts :: "(pyval \<Rightarrow> string) \<Rightarrow> pyval list \<Rightarrow> row list result" where
  "normalize_cts rp relays = for_rows (cts_of_relay rp) relays"

definition vt_row ::
  "(pyval \<Rightarrow> string) \<Rightarrow> pyval \<Rightarrow> pyval \<Rightarrow> pyval \<Rightarrow> nat \<times> pyval \<Rightarrow> counters
     \<Rightarrow> (row list \<times> counters) result" where
  "vt_row rp relay_id vt_defined vt_enabled iv cs = (case iv of
       (idx, PDict vt) \<Rightarrow>
         (let (vt_id, cs1) = make_vt_id rp relay_id (dget vt ''@id'') idx cs in
          ebind (safe_float rp (dget vt ''@primaryKV'')) (\<lambda>primary_kv.
          ebind (safe_float rp (dget vt ''@secondaryV'')) (\<lambda>secondary_v.
          ebind (safe_float rp (dget vt ''@burdenVA'')) (\<lambda>burden_va.
            Inr ([[(''relay_id'', relay_id),
                   (''vt_id'', vt_id),
                   (''location'', dget vt ''@location''),
                   (''primary_kv'', primary_kv),
                   (''secondary_v'', secondary_v),
                   (''connection'', dget vt ''@connection''),
                   (''burden_va'', burden_va),
                   (''vt_defined'', vt_defined),
                   (''vt_enabled'', vt_enabled)]], cs1)))))
     | _ \<Rightarrow> Inr ([], cs))"

definition vts_of_relay ::
  "(pyval \<Rightarrow> string) \<Rightarrow> pyval \<Rightarrow> counters \<Rightarrow> (row list \<times> counters) result" where
  "vts_of_relay rp relay cs = (case relay of
       PDict r \<Rightarrow>
         (let relay_id = dget r ''@id''; vts_block = dget r ''VTs'' in
          if \<not> py_truthy vts_block then Inr ([], cs)
          else
            ebind (py_get vts_block ''@vtDefined'') (\<lambda>vt_defined.
            ebind (py_get vts_block ''@vtEnabled'') (\<lambda>vt_enabled.
            ebind (py_get vts_block ''VT'') (\<lambda>vt_nodes.
              if vt_nodes = PNone then
                (let (vt_id, cs1) = make_vt_id rp relay_id PNone 1 cs in
                 Inr ([[(''relay_id'', relay_id),
                        (''vt_id'', vt_id),
                        (''location'', PNone),
                        (''primary_kv'', PNone),
                        (''secondary_v'', PNone),
                        (''connection'', PNone),
                        (''burden_va'', PNone),
                        (''vt_defined'', vt_defined),
                        (''vt_enabled'', vt_enabled)]], cs1))
              else for_rows_st (vt_row rp relay_id vt_defined vt_enabled)
                     (enumerate 1 (ensure_list vt_nodes)) cs))))
     | _ \<Rightarrow> Inl AttributeError)"

definition normalize_vts ::
  "(pyval \<Rightarrow> string) \<Rightarrow> pyval list \<Rightarrow> counters \<Rightarrow> (row list \<times> counters) result" where
  "normalize_vts rp relays cs = for_rows_st (vts_of_relay rp) relays cs"

definition relay_functions :: "(string \<times> pyval) list \<Rightarrow> pyval list result" where
  \<comment> \<open>the head shared by the extractors below function level: nothing when
      \<^verbatim>\<open>not pf_block\<close>, else \<^verbatim>\<open>ensure_list(pf_block.get("Function"))\<close>\<close>
  "relay_functions r =
     (let pf_block = dget r ''ProtectionFunctions'' in
      if \<not> py_truthy pf_block then Inr []
      else ebind (py_get pf_block ''Function'') (\<lambda>fs. Inr (ensure_list fs)))"

definition function_row :: "pyval \<Rightarrow> pyval \<Rightarrow> row list result" where
  "function_row relay_id func = (case func of
       PDict f \<Rightarrow>
         Inr [[(''relay_id'', relay_id),
               (''function_id'', dget f ''@id''),
               (''name'', dget f ''@name''),
               (''ansi_code'', dget f ''@ansiCode''),
               (''enabled'', dget f ''@enabled''),
               (''zone'', dget f ''@zone''),
               (''directionality'', dget f ''@directionality''),
               (''trip_output'', dget f ''@tripOutput''),
               (''ct_ref'', dget f ''@ctRef'')]]
     | _ \<Rightarrow> Inr [])"

definition functions_of_relay :: "pyval \<Rightarrow> row list result" where
  "functions_of_relay relay = (case relay of
       PDict r \<Rightarrow> ebind (relay_functions r) (for_rows (function_row (dget r ''@id'')))
     | _ \<Rightarrow> Inl AttributeError)"

definition normalize_functions :: "pyval list \<Rightarrow> row list result" where
  "normalize_functions relays = for_rows functions_of_relay relays"

section \<open>Function settings, aggregated per function\<close>

type_synonym raw_setting = "string \<times> string \<times> pyval"

definition raw_of_entry :: "(pyval \<Rightarrow> string) \<Rightarrow> string \<times> pyval \<Rightarrow> raw_setting list" where
  \<comment> \<open>the body of \<^verbatim>\<open>for key, node in settings.items()\<close>; a raw setting is the triple
      (parameter, attribute, value)\<close>
  "raw_of_entry rp kn = (case kn of (key, node) \<Rightarrow>
     if key = ''Curve'' then []
     else (case node of
         PDict n \<Rightarrow>
           map (\<lambda>(attr_name, attr_val). (key, lstrip_at attr_name, attr_val))
             (filter (\<lambda>(attr_name, attr_val). startswith attr_name ''@'') n)
       | _ \<Rightarrow> [(key, ''_text'', PStr (py_str rp node))]))"

definition collect_raw_settings_for_function ::
  "(pyval \<Rightarrow> string) \<Rightarrow> (string \<times> pyval) list \<Rightarrow> raw_setting list result" where
  "collect_raw_settings_for_function rp func =
     (let settings = dget func ''Settings'' in
      if \<not> py_truthy settings then Inr []
      else (case settings of
          PDict st \<Rightarrow> Inr (concat (map (raw_of_entry rp) st))
        | _ \<Rightarrow> Inl AttributeError))"

definition add_to_group ::
  "(string \<times> (string \<times> pyval) list) list \<Rightarrow> raw_setting
     \<Rightarrow> (string \<times> (string \<times> pyval) list) list" where
  \<comment> \<open>\<^verbatim>\<open>by_param.setdefault(param, []).append({attribute, value})\<close>\<close>
  "add_to_group by_param item = (case item of (param, attribute, val) \<Rightarrow>
     dict_set by_param param (dict_get by_param param [] @ [(attribute, val)]))"

definition group_by_param :: "raw_setting list \<Rightarrow> (string \<times> (string \<times> pyval) list) list" where
  \<comment> \<open>the loop \<^verbatim>\<open>for item in raw_settings\<close> that fills \<^verbatim>\<open>by_param\<close>\<close>
  "group_by_param raw = foldl add_to_group [] raw"

record settings_acc =
  extra :: "(string \<times> pyval) list"
  pickup_pu :: pyval
  pickup_a :: pyval
  time_dial :: pyval
  min_time_seconds :: pyval
  thermal_constant :: pyval
  full_load_current :: pyval
  trip_class :: pyval

definition settings_init :: settings_acc where
  "settings_init = \<lparr>extra = [], pickup_pu = PNone, pickup_a = PNone, time_dial = PNone,
     min_time_seconds = PNone, thermal_constant = PNone, full_load_current = PNone,
     trip_class = PNone\<rparr>"

definition settings_step ::
  "(pyval \<Rightarrow> string) \<Rightarrow> string \<Rightarrow> settings_acc \<Rightarrow> string \<times> pyval \<Rightarrow> settings_acc result" where
  \<comment> \<open>the body of \<^verbatim>\<open>for item in items\<close>: the raw value goes into \<^verbatim>\<open>extra\<close> first, then
      the parameter name is matched against the synonym sets\<close>
  "settings_step rp param_name acc item = (case item of (attribute, val) \<Rightarrow>
     (let acc1 = acc\<lparr>extra := dict_set (extra acc) (param_name @ ''.'' @ attribute) val\<rparr>;
          pname_lower = py_lower param_name in
      if pname_lower \<in> set [''pickupperunit'', ''pickup_per_unit'', ''pickup_pu'']
      then ebind (safe_float rp val) (\<lambda>x. Inr (acc1\<lparr>pickup_pu := x\<rparr>))
      else if pname_lower \<in> set [''pickupamps'', ''pickup_a'', ''pickup_current'']
      then ebind (safe_float rp val) (\<lambda>x. Inr (acc1\<lparr>pickup_a := x\<rparr>))
      else if pname_lower \<in> set [''timedial'', ''time_dial'']
      then ebind (safe_float rp val) (\<lambda>x. Inr (acc1\<lparr>time_dial := x\<rparr>))
      else if pname_lower \<in> set [''mintimeseconds'', ''min_time_seconds'', ''min_time'']
      then ebind (safe_float rp val) (\<lambda>x. Inr (acc1\<lparr>min_time_seconds := x\<rparr>))
      else if pname_lower \<in> set [''thermalconstant'', ''thermal_constant'']
      then ebind (safe_float rp val) (\<lambda>x. Inr (acc1\<lparr>thermal_constant := x\<rparr>))
      else if pname_lower \<in> set [''fullloadcurrent'', ''full_load_current'', ''fla'']
      then ebind (safe_float rp val) (\<lambda>x. Inr (acc1\<lparr>full_load_current := x\<rparr>))
      else if pname_lower \<in> set [''tripclass'', ''trip_class'']
      then ebind (safe_float rp val) (\<lambda>x. Inr (acc1\<lparr>trip_class := x\<rparr>))
      else Inr acc1))"

definition aggregate_settings ::
  "(pyval \<Rightarrow> string) \<Rightarrow> raw_setting list \<Rightarrow> settings_acc result" where
  \<comment> \<open>the two nested loops over \<^verbatim>\<open>by_param.items()\<close> and \<^verbatim>\<open>items\<close>\<close>
  "aggregate_settings rp raw =
     efoldl (\<lambda>acc (param_name, items). efoldl (settings_step rp param_name) acc items)
       settings_init (group_by_param raw)"

definition settings_of_function :: "(pyval \<Rightarrow> string) \<Rightarrow> pyval \<Rightarrow> pyval \<Rightarrow> row list result" where
  \<comment> \<open>the body of the loop over the functions of one relay; \<^verbatim>\<open>json.dumps(extra)\<close> is kept
      as the dictionary it serialises\<close>
  "settings_of_function rp relay_id func = (case func of
       PDict f \<Rightarrow>
         (let func_id = py_or (dget f ''@id'') (PStr []) in
          ebind (collect_raw_settings_for_function rp f) (\<lambda>raw_settings.
            if raw_settings = [] then Inr []
            else ebind (aggregate_settings rp raw_settings) (\<lambda>acc.
              Inr [[(''setting_id'', make_setting_id rp relay_id func_id),
                    (''function_id'', func_id),
                    (''pickup_pu'', pickup_pu acc),
                    (''pickup_a'', pickup_a acc),
                    (''time_dial'', time_dial acc),
                    (''min_time_seconds'', min_time_seconds acc),
                    (''thermal_constant'', thermal_constant acc),
                    (''full_load_current'', full_load_current acc),
                    (''trip_class'', trip_class acc),
                    (''extra_json'', if extra acc \<noteq> [] then PDict (extra acc) else PNone)]])))
     | _ \<Rightarrow> Inr [])"

definition settings_of_relay :: "(pyval \<Rightarrow> string) \<Rightarrow> pyval \<Rightarrow> row list result" where
  "settings_of_relay rp relay = (case relay of
       PDict r \<Rightarrow> ebind (relay_functions r) (for_rows (settings_of_function rp (dget r ''@id'')))
     | _ \<Rightarrow> Inl AttributeError)"

definition normalize_function_settings ::
  "(pyval \<Rightarrow> string) \<Rightarrow> pyval list \<Rightarrow> row list result" where
  "normalize_function_settings rp relays = for_rows (settings_of_relay rp) relays"

section \<open>Curves and curve points\<close>

definition curves_nodes_of :: "(string \<times> pyval) list \<Rightarrow> pyval list result" where
  \<comment> \<open>the candidate list both curve extractors build: the curves nested in the settings
      block, then the curves directly under the function\<close>
  "curves_nodes_of func =
     (let settings = dget func ''Settings'' in
      ebind (if py_truthy settings
             then ebind (py_in ''Curve'' settings) (\<lambda>found.
                    if found
                    then ebind (py_getitem settings ''Curve'') (\<lambda>c. Inr (ensure_list c))
                    else Inr [])
             else Inr []) (\<lambda>nested.
        Inr (nested @ (if dict_has func ''Curve'' then ensure_list (dget func ''Curve'') else []))))"

definition parse_parametric :: "pyval \<Rightarrow> pyval" where
  "parse_parametric parametric_raw = (case parametric_raw of
       PStr s \<Rightarrow>
         if py_lower s \<in> set [''true'', ''1'', ''yes''] then PBool True
         else if py_lower s \<in> set [''false'', ''0'', ''no''] then PBool False
         else PNone
     | _ \<Rightarrow> PNone)"

definition curve_row ::
  "(pyval \<Rightarrow> string) \<Rightarrow> pyval \<Rightarrow> pyval \<Rightarrow> nat \<times> pyval \<Rightarrow> counters
     \<Rightarrow> (row list \<times> counters) result" where
  "curve_row rp relay_id func_id ic cs = (case ic of
       (idx, PDict curve) \<Rightarrow>
         (let attrs = node_attrs curve;
              curve_xml_id = dget attrs ''id'';
              (curve_id, cs1) = make_curve_id rp relay_id func_id curve_xml_id idx cs;
              (family, attrs1) = dict_pop attrs ''family'';
              (curve_type, attrs2) = dict_pop attrs1 ''type'';
              (standard, attrs3) = dict_pop attrs2 ''standard'';
              (pickup_pu_raw, attrs4) = dict_pop attrs3 ''pickupPU'';
              (pickup_a_raw, attrs5) = dict_pop attrs4 ''pickupA'';
              (time_dial_raw, attrs6) = dict_pop attrs5 ''timeDial'';
              (min_time_raw, attrs7) = dict_pop attrs6 ''minTimeSeconds'';
              (parametric_raw, attrs8) = dict_pop attrs7 ''parametric'' in
          ebind (safe_float rp pickup_pu_raw) (\<lambda>pickup_pu.
          ebind (safe_float rp pickup_a_raw) (\<lambda>pickup_a.
          ebind (safe_float rp time_dial_raw) (\<lambda>time_dial.
          ebind (safe_float rp min_time_raw) (\<lambda>min_time_sec.
            Inr ([[(''curve_id'', curve_id),
                   (''function_id'', func_id),
                   (''family'', family),
                   (''type'', curve_type),
                   (''standard'', standard),
                   (''pickup_pu'', pickup_pu),
                   (''pickup_a'', pickup_a),
                   (''time_dial'', time_dial),
                   (''min_time_sec'', min_time_sec),
                   (''parametric'', parse_parametric parametric_raw),
                   (''extra_json'', if attrs8 \<noteq> [] then PDict attrs8 else PNone)]], cs1))))))
     | _ \<Rightarrow> Inr ([], cs))"

definition curves_of_function ::
  "(pyval \<Rightarrow> string) \<Rightarrow> pyval \<Rightarrow> pyval \<Rightarrow> counters \<Rightarrow> (row list \<times> counters) result" where
  "curves_of_function rp relay_id func cs = (case func of
       PDict f \<Rightarrow>
         ebind (curves_nodes_of f) (\<lambda>curves_nodes.
           for_rows_st (curve_row rp relay_id (dget f ''@id'')) (enumerate 1 curves_nodes) cs)
     | _ \<Rightarrow> Inr ([], cs))"

definition curves_of_relay ::
  "(pyval \<Rightarrow> string) \<Rightarrow> pyval \<Rightarrow> counters \<Rightarrow> (row list \<times> counters) result" where
  "curves_of_relay rp relay cs = (case relay of
       PDict r \<Rightarrow>
         ebind (relay_functions r) (\<lambda>fs. for_rows_st (curves_of_function rp (dget r ''@id'')) fs cs)
     | _ \<Rightarrow> Inl AttributeError)"

definition normalize_function_curves ::
  "(pyval \<Rightarrow> string) \<Rightarrow> pyval list \<Rightarrow> counters \<Rightarrow> (row list \<times> counters) result" where
  "normalize_function_curves rp relays cs = for_rows_st (curves_of_relay rp) relays cs"

definition point_row ::
  "(pyval \<Rightarrow> string) \<Rightarrow> pyval \<Rightarrow> pyval \<Rightarrow> nat \<times> pyval \<Rightarrow> row list result" where
  "point_row rp curve_id base ip = (case ip of
       (idx, PDict point) \<Rightarrow>
         (let attrs = node_attrs point in
          ebind (safe_float rp (dget attrs ''multiple'')) (\<lambda>multiple.
          ebind (safe_float rp (dget attrs ''current'')) (\<lambda>current.
          ebind (safe_float rp (dget attrs ''timeSeconds'')) (\<lambda>time_seconds.
            Inr [[(''point_id'', make_point_id rp curve_id idx),
                  (''curve_id'', curve_id),
                  (''base'', base),
                  (''multiple'', multiple),
                  (''time_seconds'', time_seconds),
                  (''amps'', current),
                  (''volts'', PNone)]]))))
     | _ \<Rightarrow> Inr [])"

definition first_curve_xml_id :: "pyval list \<Rightarrow> pyval" where
  \<comment> \<open>the \<^verbatim>\<open>@id\<close> of \<^verbatim>\<open>curves_nodes[0]\<close> when there is one and it is a dictionary\<close>
  "first_curve_xml_id curves_nodes = (case curves_nodes of
       [] \<Rightarrow> PNone
     | first_curve # rest \<Rightarrow>
         (case first_curve of PDict c \<Rightarrow> dget (node_attrs c) ''id'' | _ \<Rightarrow> PNone))"

definition points_of_function ::
  "(pyval \<Rightarrow> string) \<Rightarrow> pyval \<Rightarrow> pyval \<Rightarrow> counters \<Rightarrow> (row list \<times> counters) result" where
  \<comment> \<open>the curve id is computed before the function is asked for its points\<close>
  "points_of_function rp relay_id func cs = (case func of
       PDict f \<Rightarrow>
         ebind (curves_nodes_of f) (\<lambda>curves_nodes.
           (let (curve_id, cs1) =
                  make_curve_id rp relay_id (dget f ''@id'') (first_curve_xml_id curves_nodes) 1 cs;
                cp_block = dget f ''CurvePoints'' in
            if \<not> py_truthy cp_block then Inr ([], cs1)
            else ebind (py_get cp_block ''@base'') (\<lambda>base.
                 ebind (py_get cp_block ''Point'') (\<lambda>points.
                 ebind (for_rows (point_row rp curve_id base) (enumerate 1 (ensure_list points)))
                   (\<lambda>rows. Inr (rows, cs1))))))
     | _ \<Rightarrow> Inr ([], cs))"

definition points_of_relay ::
  "(pyval \<Rightarrow> string) \<Rightarrow> pyval \<Rightarrow> counters \<Rightarrow> (row list \<times> counters) result" where
  "points_of_relay rp relay cs = (case relay of
       PDict r \<Rightarrow>
         ebind (relay_functions r) (\<lambda>fs. for_rows_st (points_of_function rp (dget r ''@id'')) fs cs)
     | _ \<Rightarrow> Inl AttributeError)"

definition normalize_curve_points ::
  "(pyval \<Rightarrow> string) \<Rightarrow> pyval list \<Rightarrow> counters \<Rightarrow> (row list \<times> counters) result" where
  "normalize_curve_points rp relays cs = for_rows_st (points_of_relay rp) relays cs"

section \<open>Parameters and selectivity\<close>

definition parameter_row :: "(pyval \<Rightarrow> string) \<Rightarrow> pyval \<Rightarrow> nat \<times> pyval \<Rightarrow> row list result" where
  "parameter_row rp relay_id ip = (case ip of
       (idx, PDict param) \<Rightarrow>
         Inr [[(''parameter_id'', py_or (dget param ''@id'') (make_parameter_id rp relay_id idx)),
               (''relay_id'', relay_id),
               (''name'', dget param ''@name''),
               (''group_name'', dget param ''@group''),
               (''type'', dget param ''@type''),
               (''value'', dget param ''@value'')]]
     | _ \<Rightarrow> Inr [])"

definition parameters_of_relay :: "(pyval \<Rightarrow> string) \<Rightarrow> pyval \<Rightarrow> row list result" where
  "parameters_of_relay rp relay = (case relay of
       PDict r \<Rightarrow>
         (let relay_id = dget r ''@id''; params_block = dget r ''Parameters'' in
          if \<not> py_truthy params_block then Inr []
          else ebind (py_get params_block ''Parameter'') (\<lambda>ps.
                 for_rows (parameter_row rp relay_id) (enumerate 1 (ensure_list ps))))
     | _ \<Rightarrow> Inl AttributeError)"

definition normalize_parameters :: "(pyval \<Rightarrow> string) \<Rightarrow> pyval list \<Rightarrow> row list result" where
  "normalize_parameters rp relays = for_rows (parameters_of_relay rp) relays"

definition downstream_row ::
  "(pyval \<Rightarrow> string) \<Rightarrow> pyval \<Rightarrow> pyval \<Rightarrow> pyval \<Rightarrow> nat \<times> pyval \<Rightarrow> row list result" where
  "downstream_row rp relay_id func_id margin_s idv = (case idv of
       (idx, PDict dev) \<Rightarrow>
         Inr [[(''selectivity_id'', make_selectivity_id rp relay_id func_id ''Downstream'' idx),
               (''function_id'', func_id),
               (''upstream_device'', PNone),
               (''downstream_device'', dget dev ''@id''),
               (''element'', dget dev ''@element''),
               (''coordination_margin'', margin_s)]]
     | _ \<Rightarrow> Inr [])"

definition upstream_row ::
  "(pyval \<Rightarrow> string) \<Rightarrow> pyval \<Rightarrow> pyval \<Rightarrow> pyval \<Rightarrow> nat \<times> pyval \<Rightarrow> row list result" where
  "upstream_row rp relay_id func_id margin_s idv = (case idv of
       (idx, PDict dev) \<Rightarrow>
         Inr [[(''selectivity_id'', make_selectivity_id rp relay_id func_id ''Upstream'' idx),
               (''function_id'', func_id),
               (''upstream_device'', dget dev ''@id''),
               (''downstream_device'', PNone),
               (''element'', dget dev ''@element''),
               (''coordination_margin'', margin_s)]]
     | _ \<Rightarrow> Inr [])"

definition selectivity_of_function ::
  "(pyval \<Rightarrow> string) \<Rightarrow> pyval \<Rightarrow> pyval \<Rightarrow> row list result" where
  "selectivity_of_function rp relay_id func = (case func of
       PDict f \<Rightarrow>
         (let func_id = dget f ''@id''; sel_block = dget f ''Selectivity'' in
          if \<not> py_truthy sel_block then Inr []
          else (case sel_block of
              PDict sb \<Rightarrow>
                (let margin = dict_get sb ''CoordinationMargin'' (PDict []) in
                 ebind (py_get margin ''@seconds'') (\<lambda>seconds.
                 ebind (safe_float rp seconds) (\<lambda>margin_s.
                 ebind (for_rows (downstream_row rp relay_id func_id margin_s)
                          (enumerate 1 (ensure_list (dget sb ''DownstreamDevice'')))) (\<lambda>down.
                 ebind (for_rows (upstream_row rp relay_id func_id margin_s)
                          (enumerate 1 (ensure_list (dget sb ''UpstreamDevice'')))) (\<lambda>up.
                   Inr (down @ up))))))
            | _ \<Rightarrow> Inl AttributeError))
     | _ \<Rightarrow> Inr [])"

definition selectivity_of_relay :: "(pyval \<Rightarrow> string) \<Rightarrow> pyval \<Rightarrow> row list result" where
  "selectivity_of_relay rp relay = (case relay of
       PDict r \<Rightarrow> ebind (relay_functions r) (for_rows (selectivity_of_function rp (dget r ''@id'')))
     | _ \<Rightarrow> Inl AttributeError)"

definition normalize_selectivity :: "(pyval \<Rightarrow> string) \<Rightarrow> pyval list \<Rightarrow> row list result" where
  "normalize_selectivity rp relays = for_rows (selectivity_of_relay rp) relays"

section \<open>The normalisation pass\<close>

text \<open>
  \<^verbatim>\<open>run_normalize_pipeline\<close> reads the document, takes the relay list and calls the nine
  extractors in a fixed order, writing each table to a file.  The model starts from the
  relay list and returns the nine tables; the counters enter as the module left them and
  leave as the pass left them, since the source keeps them in a module-level dictionary
  that no function resets.  An exception ends the pass: the result is the error, and the
  counters are not followed past it.
\<close>

record norm_tables =
  relays_core :: "row list"
  relays_cts :: "row list"
  relays_vts :: "row list"
  relays_functions :: "row list"
  relays_function_settings :: "row list"
  relays_curves :: "row list"
  relays_curve_points :: "row list"
  relays_parameters :: "row list"
  relays_selectivity :: "row list"

definition run_normalize_pipeline ::
  "(pyval \<Rightarrow> string) \<Rightarrow> pyval list \<Rightarrow> counters \<Rightarrow> (norm_tables \<times> counters) result" where
  "run_normalize_pipeline rp relays cs =
     ebind (normalize_relays_core rp relays) (\<lambda>core.
     ebind (normalize_cts rp relays) (\<lambda>cts.
     ebind (normalize_vts rp relays cs) (\<lambda>(vts, cs1).
     ebind (normalize_functions relays) (\<lambda>functions.
     ebind (normalize_function_settings rp relays) (\<lambda>settings.
     ebind (normalize_function_curves rp relays cs1) (\<lambda>(curves, cs2).
     ebind (normalize_curve_points rp relays cs2) (\<lambda>(points, cs3).
     ebind (normalize_parameters rp relays) (\<lambda>parameters.
     ebind (normalize_selectivity rp relays) (\<lambda>selectivity.
       Inr (\<lparr>relays_core = core, relays_cts = cts, relays_vts = vts,
              relays_functions = functions, relays_function_settings = settings,
              relays_curves = curves, relays_curve_points = points,
              relays_parameters = parameters, relays_selectivity = selectivity\<rparr>, cs3))))))))))"

definition column :: "string \<Rightarrow> row list \<Rightarrow> pyval list" where
  \<comment> \<open>the values of one column of a table, in row order\<close>
  "column name rows = map (\<lambda>r. dget r name) rows"

section \<open>Predicates of the statements\<close>

definition is_dict :: "pyval \<Rightarrow> bool" where
  \<comment> \<open>\<^verbatim>\<open>isinstance(v, dict)\<close>\<close>
  "is_dict v = (case v of PDict d \<Rightarrow> True | _ \<Rightarrow> False)"

definition lacks_id :: "pyval \<Rightarrow> bool" where
  \<comment> \<open>a node for which \<^verbatim>\<open>node.get("@id") or ...\<close> takes the synthetic key\<close>
  "lacks_id v = (case v of PDict d \<Rightarrow> \<not> py_truthy (dget d ''@id'') | _ \<Rightarrow> True)"

definition nodes_lack_id :: "pyval \<Rightarrow> string \<Rightarrow> string \<Rightarrow> bool" where
  \<comment> \<open>no child element of the relay's block has a natural \<^verbatim>\<open>@id\<close>\<close>
  "nodes_lack_id relay block child = (case relay of
       PDict r \<Rightarrow> (case dget r block of
                    PDict b \<Rightarrow> list_all lacks_id (ensure_list (dget b child))
                  | _ \<Rightarrow> True)
     | _ \<Rightarrow> True)"

definition float_overflows :: "pyval \<Rightarrow> bool" where
  \<comment> \<open>the values on which \<^verbatim>\<open>float(value)\<close>, and so \<^verbatim>\<open>safe_float\<close>, raises OverflowError\<close>
  "float_overflows v = (case v of PInt i \<Rightarrow> float_overflow_bound \<le> \<bar>of_int i\<bar> | _ \<Rightarrow> False)"

definition triples_of :: "(string \<times> (string \<times> pyval) list) list \<Rightarrow> raw_setting set" where
  \<comment> \<open>the raw settings held by a grouped dictionary\<close>
  "triples_of by_param = (\<Union>(p, items) \<in> set by_param. (\<lambda>(a, v). (p, a, v)) ` set items)"

definition vt_key_drawn :: "pyval \<Rightarrow> pyval \<Rightarrow> bool" where
  \<comment> \<open>\<^verbatim>\<open>make_vt_id\<close> reaches \<^verbatim>\<open>_next_counter("VT")\<close>\<close>
  "vt_key_drawn relay_id vt_xml_id = (\<not> py_truthy vt_xml_id \<and> \<not> py_truthy relay_id)"

definition curve_key_drawn :: "pyval \<Rightarrow> pyval \<Rightarrow> pyval \<Rightarrow> bool" where
  \<comment> \<open>\<^verbatim>\<open>make_curve_id\<close> reaches \<^verbatim>\<open>_next_counter("CURVE")\<close>\<close>
  "curve_key_drawn relay_id func_id curve_xml_id =
     (\<not> py_truthy curve_xml_id \<and> \<not> (py_truthy relay_id \<and> py_truthy func_id))"

definition vt_node_drawn :: "pyval \<Rightarrow> pyval \<Rightarrow> bool" where
  \<comment> \<open>the VT node gets a row, and its key comes from the counter\<close>
  "vt_node_drawn relay_id v =
     (case v of PDict vt \<Rightarrow> vt_key_drawn relay_id (dget vt ''@id'') | _ \<Rightarrow> False)"

definition vt_rows_drawn :: "pyval \<Rightarrow> bool" where
  \<comment> \<open>the relay gets a VT row whose key comes from the counter\<close>
  "vt_rows_drawn relay = (case relay of
       PDict r \<Rightarrow> (case dget r ''VTs'' of
           PDict b \<Rightarrow> b \<noteq> [] \<and>
             (if dget b ''VT'' = PNone then vt_key_drawn (dget r ''@id'') PNone
              else list_ex (vt_node_drawn (dget r ''@id'')) (ensure_list (dget b ''VT'')))
         | _ \<Rightarrow> False)
     | _ \<Rightarrow> False)"

definition curve_node_drawn :: "pyval \<Rightarrow> pyval \<Rightarrow> pyval \<Rightarrow> bool" where
  \<comment> \<open>the candidate curve gets a row, and its key comes from the counter\<close>
  "curve_node_drawn relay_id func_id c = (case c of
       PDict curve \<Rightarrow> curve_key_drawn relay_id func_id (dget (node_attrs curve) ''id'')
     | _ \<Rightarrow> False)"

definition curve_rows_drawn :: "pyval \<Rightarrow> pyval \<Rightarrow> bool" where
  \<comment> \<open>the function gets a curve row whose key comes from the counter\<close>
  "curve_rows_drawn relay_id func = (case func of
       PDict f \<Rightarrow> (case curves_nodes_of f of
           Inr curves_nodes \<Rightarrow> list_ex (curve_node_drawn relay_id (dget f ''@id'')) curves_nodes
         | Inl e \<Rightarrow> False)
     | _ \<Rightarrow> False)"

definition point_rows_drawn :: "pyval \<Rightarrow> pyval \<Rightarrow> bool" where
  \<comment> \<open>the function gets a point row, and the curve id of its points comes from the
      counter\<close>
  "point_rows_drawn relay_id func = (case func of
       PDict f \<Rightarrow> (case curves_nodes_of f of
           Inr curves_nodes \<Rightarrow>
             curve_key_drawn relay_id (dget f ''@id'') (first_curve_xml_id curves_nodes)
             \<and> (case dget f ''CurvePoints'' of
                  PDict cp \<Rightarrow> list_ex is_dict (ensure_list (dget cp ''Point''))
                | _ \<Rightarrow> False)
         | Inl e \<Rightarrow> False)
     | _ \<Rightarrow> False)"

definition relay_emits_counter_key :: "pyval \<Rightarrow> bool" where
  \<comment> \<open>one of the relay's VT, curve or point rows has a key drawn from a counter\<close>
  "relay_emits_counter_key relay = (case relay of
       PDict r \<Rightarrow>
         vt_rows_drawn relay
         \<or> (case relay_functions r of
               Inr fs \<Rightarrow> list_ex (\<lambda>func. curve_rows_drawn (dget r ''@id'') func
                                    \<or> point_rows_drawn (dget r ''@id'') func) fs
             | Inl e \<Rightarrow> False)
     | _ \<Rightarrow> False)"

definition emits_counter_key :: "pyval list \<Rightarrow> bool" where
  \<comment> \<open>the pass over the relay list emits a row whose key was drawn from a fallback
      counter: a VT row keyed \<^verbatim>\<open>VT-AUTO-n\<close>, a curve row keyed \<^verbatim>\<open>CUR-AUTO-n\<close>, or a point row
      under such a curve id\<close>
  "emits_counter_key relays = list_ex relay_emits_counter_key relays"

definition counter_free :: "(counters \<Rightarrow> ('a \<times> counters) result) \<Rightarrow> bool" where
  \<comment> \<open>what a step returns beside the counters does not depend on the counters it starts
      from\<close>
  "counter_free m = (\<forall>cs r cs1 cs2. m cs = Inr (r, cs1) \<longrightarrow> (\<exists>cs3. m cs2 = Inr (r, cs3)))"

section \<open>Example trees\<close>

definition no_repr :: "pyval \<Rightarrow> string" where
  \<comment> \<open>a printed form for the examples below, none of which prints a float, a list or a
      dictionary\<close>
  "no_repr v = ''<repr>''"

definition ct_tree :: "(string \<times> pyval) list \<Rightarrow> pyval list" where
  \<comment> \<open>relay \<^verbatim>\<open>R1\<close> with one CT node that has the given attributes\<close>
  "ct_tree ct = [PDict [(''@id'', PStr ''R1''), (''CTs'', PDict [(''CT'', PDict ct)])]]"

definition ct_table :: "pyval \<Rightarrow> pyval \<Rightarrow> pyval \<Rightarrow> row list" where
  \<comment> \<open>the one-row CT table of such a tree when the node has no other attribute\<close>
  "ct_table primary secondary ratio =
     [[(''relay_id'', PStr ''R1''), (''ct_id'', PStr ''CT-R1-01''), (''location'', PNone),
       (''phase'', PNone), (''primary_a'', primary), (''secondary_a'', secondary),
       (''ratio'', ratio), (''class'', PNone), (''burden_va'', PNone), (''core_id'', PNone)]]"

definition function_tree :: "(string \<times> pyval) list \<Rightarrow> pyval list" where
  \<comment> \<open>relay \<^verbatim>\<open>R1\<close> with one protection function that has the given entries\<close>
  "function_tree func =
     [PDict [(''@id'', PStr ''R1''), (''ProtectionFunctions'', PDict [(''Function'', PDict func)])]]"

definition scenario_function :: "(string \<times> pyval) list" where
  \<comment> \<open>function \<^verbatim>\<open>F1\<close> with the settings triples (PickupPerUnit, value, "1.25") and
      (Blocking, enabled, "true")\<close>
  "scenario_function =
     [(''@id'', PStr ''F1''),
      (''Settings'', PDict [(''PickupPerUnit'', PDict [(''@value'', PStr ''1.25'')]),
                            (''Blocking'', PDict [(''@enabled'', PStr ''true'')])])]"

definition scenario_raw :: "raw_setting list" where
  \<comment> \<open>the raw settings of \<open>scenario_function\<close>\<close>
  "scenario_raw = [(''PickupPerUnit'', ''value'', PStr ''1.25''), (''Blocking'', ''enabled'', PStr ''true'')]"

definition setting_row :: "string \<Rightarrow> pyval \<Rightarrow> (string \<times> pyval) list \<Rightarrow> row" where
  \<comment> \<open>the FunctionSetting row of function \<^verbatim>\<open>F1\<close> on relay \<^verbatim>\<open>R1\<close> with the given
      \<^verbatim>\<open>pickup_pu\<close> and extension map, the other canonical columns null\<close>
  "setting_row sid pu ex =
     [(''setting_id'', PStr sid), (''function_id'', PStr ''F1''), (''pickup_pu'', pu),
      (''pickup_a'', PNone), (''time_dial'', PNone), (''min_time_seconds'', PNone),
      (''thermal_constant'', PNone), (''full_load_current'', PNone), (''trip_class'', PNone),
      (''extra_json'', PDict ex)]"

definition colliding_function :: "(string \<times> pyval) list" where
  \<comment> \<open>function \<^verbatim>\<open>F1\<close> with the settings elements \<^verbatim>\<open><A.B c="1"/>\<close> and \<^verbatim>\<open><A B.c="2"/>\<close>\<close>
  "colliding_function =
     [(''@id'', PStr ''F1''),
      (''Settings'', PDict [(''A.B'', PDict [(''@c'', PStr ''1'')]),
                            (''A'', PDict [(''@B.c'', PStr ''2'')])])]"

definition unnamed_curve_function :: "(string \<times> pyval) list" where
  \<comment> \<open>a function without \<^verbatim>\<open>@id\<close>, with one curve without \<^verbatim>\<open>@id\<close> and one point\<close>
  "unnamed_curve_function =
     [(''Curve'', PDict [(''@family'', PStr ''IEC'')]),
      (''CurvePoints'', PDict [(''Point'', PDict [(''@multiple'', PStr ''5''),
                                                  (''@timeSeconds'', PStr ''1.25'')])])]"

definition points_only_function :: "(string \<times> pyval) list" where
  \<comment> \<open>function \<^verbatim>\<open>F1\<close> with one point and no curve node at all\<close>
  "points_only_function =
     [(''@id'', PStr ''F1''),
      (''CurvePoints'', PDict [(''Point'', PDict [(''@multiple'', PStr ''5''),
                                                  (''@timeSeconds'', PStr ''1.25'')])])]"

definition margin_function :: pyval where
  \<comment> \<open>function \<^verbatim>\<open>F1\<close> with a selectivity block: margin 0.3 seconds, two downstream
      devices\<close>
  "margin_function =
     PDict [(''@id'', PStr ''F1''),
            (''Selectivity'', PDict [(''CoordinationMargin'', PDict [(''@seconds'', PStr ''0.3'')]),
                                     (''DownstreamDevice'', PList [PDict [(''@id'', PStr ''D1'')],
                                                                   PDict [(''@id'', PStr ''D2'')]])])]"

definition two_unnamed_functions :: "pyval list" where
  \<comment> \<open>relay \<^verbatim>\<open>R1\<close> with two functions without \<^verbatim>\<open>@id\<close>, each with one setting\<close>
  "two_unnamed_functions =
     [PDict [(''@id'', PStr ''R1''),
             (''ProtectionFunctions'', PDict [(''Function'', PList
                [PDict [(''Settings'', PDict [(''Blocking'', PDict [(''@enabled'', PStr ''true'')])])],
                 PDict [(''Settings'', PDict [(''Blocking'', PDict [(''@enabled'', PStr ''false'')])])]])])]]"

definition two_cts_relay :: pyval where
  \<comment> \<open>relay \<^verbatim>\<open>R1\<close> with two CT nodes without \<^verbatim>\<open>@id\<close>\<close>
  "two_cts_relay =
     PDict [(''@id'', PStr ''R1''),
            (''CTs'', PDict [(''CT'', PList [PDict [(''@phase'', PStr ''A'')],
                                             PDict [(''@phase'', PStr ''B'')]])])]"

definition two_parameters_relay :: pyval where
  \<comment> \<open>relay \<^verbatim>\<open>R1\<close> with two parameters without \<^verbatim>\<open>@id\<close>\<close>
  "two_parameters_relay =
     PDict [(''@id'', PStr ''R1''),
            (''Parameters'', PDict [(''Parameter'', PList [PDict [(''@name'', PStr ''a'')],
                                                           PDict [(''@name'', PStr ''b'')]])])]"

definition vt_flags_tree :: "pyval list" where
  \<comment> \<open>one relay without \<^verbatim>\<open>@id\<close> whose VT block has the flag \<^verbatim>\<open>vtDefined\<close> and no VT node\<close>
  "vt_flags_tree = [PDict [(''VTs'', PDict [(''@vtDefined'', PStr ''true'')])]]"

definition core_row :: "pyval \<Rightarrow> row" where
  \<comment> \<open>the RelayCore row of a relay that has at most the attribute \<^verbatim>\<open>@id\<close>\<close>
  "core_row relay_id =
     [(''relay_id'', relay_id), (''manufacturer'', PNone), (''model'', PNone), (''series'', PNone),
      (''relay_type'', PNone), (''voltage_class_kv'', PNone), (''frequency_hz'', PNone),
      (''config_date'', PNone), (''protected_transformer_id'', PNone),
      (''protected_feeder_id'', PNone), (''protected_load_id'', PNone)]"

definition vt_flags_tables :: "string \<Rightarrow> norm_tables" where
  \<comment> \<open>the tables of \<open>vt_flags_tree\<close> when the synthesised VT gets the given key\<close>
  "vt_flags_tables vt_id =
     \<lparr>relays_core = [core_row PNone], relays_cts = [],
      relays_vts = [[(''relay_id'', PNone), (''vt_id'', PStr vt_id), (''location'', PNone),
                     (''primary_kv'', PNone), (''secondary_v'', PNone), (''connection'', PNone),
                     (''burden_va'', PNone), (''vt_defined'', PStr ''true''),
                     (''vt_enabled'', PNone)]],
      relays_functions = [], relays_function_settings = [], relays_curves = [],
      relays_curve_points = [], relays_parameters = [], relays_selectivity = []\<rparr>"

definition counters_at :: "int \<Rightarrow> int \<Rightarrow> counters" where
  \<comment> \<open>the counter dictionary with the given values for VT and CURVE\<close>
  "counters_at vt curve =
     [(''VT'', vt), (''SETTING'', 0), (''CURVE'', curve), (''POINT'', 0), (''PARAM'', 0), (''SEL'', 0)]"

definition unnamed_function_tree :: "pyval list" where
  \<comment> \<open>relay \<^verbatim>\<open>R1\<close> with one function without \<^verbatim>\<open>@id\<close>, without curves and points\<close>
  "unnamed_function_tree = function_tree [(''@name'', PStr ''Overcurrent'')]"

definition unnamed_function_tables :: norm_tables where
  \<comment> \<open>the tables of \<open>unnamed_function_tree\<close>\<close>
  "unnamed_function_tables =
     \<lparr>relays_core = [core_row (PStr ''R1'')], relays_cts = [], relays_vts = [],
      relays_functions = [[(''relay_id'', PStr ''R1''), (''function_id'', PNone),
                           (''name'', PStr ''Overcurrent''), (''ansi_code'', PNone),
                           (''enabled'', PNone), (''zone'', PNone), (''directionality'', PNone),
                           (''trip_output'', PNone), (''ct_ref'', PNone)]],
      relays_function_settings = [], relays_curves = [], relays_curve_points = [],
      relays_parameters = [], relays_selectivity = []\<rparr>"

definition sibling_text_settings :: "pyval list" where
  \<comment> \<open>relay \<^verbatim>\<open>R1\<close> with the function \<open>scenario_function\<close> and a second function \<^verbatim>\<open>F2\<close>
      whose settings element holds text\<close>
  "sibling_text_settings =
     [PDict [(''@id'', PStr ''R1''),
             (''ProtectionFunctions'', PDict [(''Function'', PList
                [PDict scenario_function,
                 PDict [(''@id'', PStr ''F2''), (''Settings'', PStr ''abc'')]])])]]"

section \<open>Evaluating the coercion on concrete text\<close>

lemma float_underflow_small: "float_underflow_bound < 1 / 1000000"
proof -
  have "(1000000::rat) < 2 ^ 20" by simp
  also have "\<dots> \<le> 2 ^ 1075" by (rule power_increasing) simp_all
  finally show ?thesis by (simp add: float_underflow_bound_def field_simps)
qed

lemma float_overflow_large: "1000000000 < float_overflow_bound"
proof -
  have "(2::rat) ^ 970 \<le> 2 ^ 1023" by (rule power_increasing) simp_all
  moreover have "(2::rat) ^ 1024 = 2 * 2 ^ 1023" by simp
  moreover have "(1000000000::rat) < 2 ^ 30" by simp
  moreover have "(2::rat) ^ 30 \<le> 2 ^ 1023" by (rule power_increasing) simp_all
  ultimately show ?thesis unfolding float_overflow_bound_def by linarith
qed

lemma round_range_mid:
  "1 / 1000000 \<le> \<bar>q\<bar> \<Longrightarrow> \<bar>q\<bar> \<le> 1000000000 \<Longrightarrow> round_range q = Fin q"
  using float_underflow_small float_overflow_large unfolding round_range_def by auto

lemma round_range_zero: "round_range 0 = Fin 0"
  using float_overflow_large by (simp add: round_range_def float_underflow_bound_def)

lemmas text_eval = py_str_def py_strip_def is_space_def py_lower_def lower_char_def
  infinity_tokens_def float_of_str_def split_sign_def parse_decimal_def parse_exponent_def
  is_digit_def digits_val_def digit_val_def is_number_def Let_def

lemma safe_float_text_100: "safe_float rp (PStr ''100'') = Inr (PFloat (Fin 100))"
  by (simp add: safe_float_def text_eval round_range_mid)

lemma safe_float_text_5: "safe_float rp (PStr ''5'') = Inr (PFloat (Fin 5))"
  by (simp add: safe_float_def text_eval round_range_mid)

lemma safe_float_text_0: "safe_float rp (PStr ''0'') = Inr (PFloat (Fin 0))"
  by (simp add: safe_float_def text_eval round_range_zero)

lemma safe_float_text_1_25: "safe_float rp (PStr ''1.25'') = Inr (PFloat (Fin (5 / 4)))"
  by (simp add: safe_float_def text_eval round_range_mid)

lemma safe_float_None: "safe_float rp PNone = Inr PNone"
  by (simp add: safe_float_def)

text \<open>
  C5.  The specification asks that every textual infinity token, in any letter case, be coerced to
  an absent value.  The set literal holds the lower-case spellings only and the text is
  not lowered before the test, so \<^verbatim>\<open>"INF"\<close> and \<^verbatim>\<open>"Infinity"\<close> reach \<^verbatim>\<open>float\<close>, which
  reads them as infinities: the coercion returns an infinite float.
\<close>

theorem safe_float_upper_INF:
  "safe_float rp (PStr ''INF'') = Inr (PFloat PosInf)
   \<and> safe_float rp (PStr ''Infinity'') = Inr (PFloat PosInf)
   \<and> safe_float rp (PStr ''-Infinity'') = Inr (PFloat NegInf)
   \<and> safe_float rp (PStr ''+INF'') = Inr (PFloat PosInf)"
  by (simp add: safe_float_def text_eval)

text \<open>
  The sentinel examples of the specification: the empty text, \<^verbatim>\<open>NaN\<close>, the listed infinity
  tokens and unparseable text are absent, \<^verbatim>\<open>12.5\<close> is a number.
\<close>

lemma safe_float_sentinels:
  "safe_float rp (PStr '''') = Inr PNone"
  "safe_float rp (PStr ''NaN'') = Inr PNone"
  "safe_float rp (PStr ''inf'') = Inr PNone"
  "safe_float rp (PStr ''-inf'') = Inr PNone"
  "safe_float rp (PStr [CHR 0xE2, CHR 0x88, CHR 0x9E]) = Inr PNone"
  "safe_float rp (PStr ''abc'') = Inr PNone"
  "safe_float rp (PStr ''12.5'') = Inr (PFloat (Fin (25 / 2)))"
  by (simp_all add: safe_float_def text_eval round_range_mid)

lemma safe_float_shape: "safe_float rp v = Inr p \<Longrightarrow> p = PNone \<or> (\<exists>f. p = PFloat f)"
  by (auto simp: safe_float_def ebind_def Let_def split: if_splits sum.splits option.splits)

lemma fmt_d_2_1: "fmt_d 2 (Suc 0) = ''01''" by (simp add: fmt_d_def dec_digits.simps numeral_2_eq_2)
lemma fmt_d_2_2: "fmt_d 2 (Suc (Suc 0)) = ''02''" by (simp add: fmt_d_def dec_digits.simps numeral_2_eq_2)
lemma fmt_d_3_1: "fmt_d 3 (Suc 0) = ''001''" by (simp add: fmt_d_def dec_digits.simps numeral_3_eq_3)
lemma fmt_d_3_2: "fmt_d 3 (Suc (Suc 0)) = ''002''" by (simp add: fmt_d_def dec_digits.simps numeral_3_eq_3)
lemma fmt_d_6_1: "fmt_d 6 (Suc 0) = ''000001''" by (simp add: fmt_d_def dec_digits.simps eval_nat_numeral)
lemma fmt_d_6_2: "fmt_d 6 (Suc (Suc 0)) = ''000002''" by (simp add: fmt_d_def dec_digits.simps eval_nat_numeral)
lemma fmt_d_6_2_numeral: "fmt_d 6 2 = ''000002''" by (simp add: fmt_d_def dec_digits.simps eval_nat_numeral)
lemmas fmt_eval = fmt_d_2_1 fmt_d_2_2 fmt_d_3_1 fmt_d_3_2 fmt_d_6_1 fmt_d_6_2 fmt_d_6_2_numeral

text \<open>
  C10.  A value that is already a number is returned as \<^verbatim>\<open>float(value)\<close>: the sentinel
  tests are never reached, so a float NaN or infinity is returned as it is, and a CT node
  whose \<^verbatim>\<open>@primaryA\<close> is such a float carries it into the \<^verbatim>\<open>primary_a\<close> column.
\<close>

theorem safe_float_number_passthrough:
  "(is_number v \<longrightarrow> safe_float rp v = ebind (float_of_number v) (\<lambda>f. Inr (PFloat f)))
   \<and> safe_float rp (PFloat f) = Inr (PFloat f)
   \<and> (dget ct ''@primaryA'' = PFloat f \<and> ct_row rp relay_id (idx, PDict ct) = Inr rows
        \<longrightarrow> column ''primary_a'' rows = [PFloat f])"
proof (intro conjI impI)
  show "safe_float rp v = ebind (float_of_number v) (\<lambda>f. Inr (PFloat f))" if "is_number v"
    using that by (auto simp: safe_float_def is_number_def)
  show fl: "safe_float rp (PFloat f) = Inr (PFloat f)"
    by (simp add: safe_float_def is_number_def float_of_number_def ebind_def)
  show "column ''primary_a'' rows = [PFloat f]"
    if "dget ct ''@primaryA'' = PFloat f \<and> ct_row rp relay_id (idx, PDict ct) = Inr rows"
    using that fl
    by (auto simp: ct_row_def ebind_def column_def dict_get_def split: sum.splits)
qed

theorem safe_float_number_passthrough_witness:
  "is_number (PFloat NaN)
   \<and> safe_float no_repr (PFloat NaN) = Inr (PFloat NaN)
   \<and> safe_float no_repr (PFloat PosInf) = Inr (PFloat PosInf)
   \<and> dget [(''@primaryA'', PFloat PosInf)] ''@primaryA'' = PFloat PosInf
   \<and> ct_row no_repr (PStr ''R1'') (1, PDict [(''@primaryA'', PFloat PosInf)])
       = Inr [[(''relay_id'', PStr ''R1''), (''ct_id'', PStr ''CT-R1-01''), (''location'', PNone),
               (''phase'', PNone), (''primary_a'', PFloat PosInf), (''secondary_a'', PNone),
               (''ratio'', PNone), (''class'', PNone), (''burden_va'', PNone),
               (''core_id'', PNone)]]
   \<and> column ''primary_a''
         [[(''relay_id'', PStr ''R1''), (''ct_id'', PStr ''CT-R1-01''), (''location'', PNone),
           (''phase'', PNone), (''primary_a'', PFloat PosInf), (''secondary_a'', PNone),
           (''ratio'', PNone), (''class'', PNone), (''burden_va'', PNone),
           (''core_id'', PNone)]] = [PFloat PosInf]"
proof -
  have row: "ct_row no_repr (PStr ''R1'') (1, PDict [(''@primaryA'', PFloat PosInf)])
       = Inr [[(''relay_id'', PStr ''R1''), (''ct_id'', PStr ''CT-R1-01''), (''location'', PNone),
               (''phase'', PNone), (''primary_a'', PFloat PosInf), (''secondary_a'', PNone),
               (''ratio'', PNone), (''class'', PNone), (''burden_va'', PNone),
               (''core_id'', PNone)]]"
    by (simp add: ct_row_def ebind_def dict_get_def safe_float_def is_number_def
        float_of_number_def ct_ratio_def py_or_def py_str_def fmt_eval)
  have num: "is_number (PFloat NaN)" by (simp add: is_number_def)
  have get: "dget [(''@primaryA'', PFloat PosInf)] ''@primaryA'' = PFloat PosInf"
    by (simp add: dict_get_def)
  from safe_float_number_passthrough [of "PFloat NaN" no_repr NaN]
       safe_float_number_passthrough [of "PFloat NaN" no_repr PosInf "[(''@primaryA'', PFloat PosInf)]" "PStr ''R1''" 1, simplified row]
       num get row
  show ?thesis by (simp add: float_of_number_def ebind_def)
qed

section \<open>Loops and bindings\<close>

lemma ebind_Inr [simp]: "ebind (Inr x) f = f x"
  by (simp add: ebind_def)

lemma ebind_Inl [simp]: "ebind (Inl e) f = Inl e"
  by (simp add: ebind_def)

lemma ebind_eq_Inr: "ebind m f = Inr y \<longleftrightarrow> (\<exists>x. m = Inr x \<and> f x = Inr y)"
  by (cases m) auto

lemma for_rows_mem:
  "for_rows body xs = Inr rows \<Longrightarrow> r \<in> set rows
     \<Longrightarrow> \<exists>x rs. x \<in> set xs \<and> body x = Inr rs \<and> r \<in> set rs"
proof (induction xs arbitrary: rows)
  case Nil
  then show ?case by simp
next
  case (Cons x xs)
  from Cons.prems(1) obtain r1 rs where b: "body x = Inr r1" and t: "for_rows body xs = Inr rs"
    and rows: "rows = r1 @ rs"
    by (auto simp: ebind_eq_Inr)
  from Cons.prems(2) rows consider "r \<in> set r1" | "r \<in> set rs" by auto
  then show ?case
  proof cases
    case 1
    with b show ?thesis by auto
  next
    case 2
    from Cons.IH [OF t 2] show ?thesis by auto
  qed
qed

lemma enumerate_mem: "ix \<in> set (enumerate n xs) \<Longrightarrow> snd ix \<in> set xs"
  by (cases ix) (auto simp: in_set_enumerate_eq)

section \<open>CT ratio\<close>

lemma ct_ratio_cases:
  "ct_ratio p s = (case (p, s) of
       (PFloat x, PFloat y) \<Rightarrow> if x \<noteq> Fin 0 \<and> y \<noteq> Fin 0 then PFloat (float_quot x y) else PNone
     | _ \<Rightarrow> PNone)" if "p = PNone \<or> (\<exists>f. p = PFloat f)" "s = PNone \<or> (\<exists>f. s = PFloat f)"
  using that by (auto simp: ct_ratio_def py_truediv_def float_div_def)

lemma ct_row_ratio:
  assumes "ct_row rp relay_id ic = Inr rs" and "r \<in> set rs"
  shows "\<exists>ct. snd ic = PDict ct
           \<and> safe_float rp (dget ct ''@primaryA'') = Inr (dget r ''primary_a'')
           \<and> safe_float rp (dget ct ''@secondaryA'') = Inr (dget r ''secondary_a'')
           \<and> dget r ''ratio'' = ct_ratio (dget r ''primary_a'') (dget r ''secondary_a'')"
  using assms
  by (cases ic; cases "snd ic") (auto simp: ct_row_def ebind_eq_Inr dict_get_def)

text \<open>
  C4, as amended.  Every row of the CT table comes from a CT node of some relay;
  \<^verbatim>\<open>primary_a\<close> and \<^verbatim>\<open>secondary_a\<close> are the coercions of its \<^verbatim>\<open>@primaryA\<close> and
  \<^verbatim>\<open>@secondaryA\<close>, and \<^verbatim>\<open>ratio\<close> is their float quotient exactly when both are present and
  both are different from zero, null in every other case.  The test
  \<^verbatim>\<open>if primary and secondary\<close> is a truth test, so a zero primary gives a null ratio as
  a zero secondary does.
\<close>

theorem ct_ratio_rule:
  assumes "normalize_cts rp relays = Inr rows" and "r \<in> set rows"
  shows "\<exists>relay block ct.
           PDict relay \<in> set relays \<and> dget relay ''CTs'' = PDict block
           \<and> PDict ct \<in> set (ensure_list (dget block ''CT''))
           \<and> safe_float rp (dget ct ''@primaryA'') = Inr (dget r ''primary_a'')
           \<and> safe_float rp (dget ct ''@secondaryA'') = Inr (dget r ''secondary_a'')
           \<and> dget r ''ratio'' =
               (case (dget r ''primary_a'', dget r ''secondary_a'') of
                  (PFloat p, PFloat s) \<Rightarrow>
                    if p \<noteq> Fin 0 \<and> s \<noteq> Fin 0 then PFloat (float_quot p s) else PNone
                | _ \<Rightarrow> PNone)"
proof -
  from for_rows_mem [OF assms [unfolded normalize_cts_def]]
  obtain x rs where x: "x \<in> set relays" and xr: "cts_of_relay rp x = Inr rs" and r: "r \<in> set rs"
    by blast
  from xr obtain relay where relay: "x = PDict relay"
    by (cases x) (auto simp: cts_of_relay_def)
  from xr r relay obtain block where block: "dget relay ''CTs'' = PDict block"
    and loop: "for_rows (ct_row rp (dget relay ''@id'')) (enumerate 1 (ensure_list (dget block ''CT''))) = Inr rs"
    by (cases "dget relay ''CTs''")
       (auto simp: cts_of_relay_def Let_def py_get_def ebind_eq_Inr split: if_splits)
  from for_rows_mem [OF loop r]
  obtain ic rs' where ic: "ic \<in> set (enumerate 1 (ensure_list (dget block ''CT'')))"
    and row: "ct_row rp (dget relay ''@id'') ic = Inr rs'" and r': "r \<in> set rs'"
    by blast
  from ct_row_ratio [OF row r'] obtain ct where ct: "snd ic = PDict ct"
    and p: "safe_float rp (dget ct ''@primaryA'') = Inr (dget r ''primary_a'')"
    and s: "safe_float rp (dget ct ''@secondaryA'') = Inr (dget r ''secondary_a'')"
    and q: "dget r ''ratio'' = ct_ratio (dget r ''primary_a'') (dget r ''secondary_a'')"
    by blast
  have mem: "PDict ct \<in> set (ensure_list (dget block ''CT''))"
    using enumerate_mem [OF ic] ct by simp
  from q ct_ratio_cases [OF safe_float_shape [OF p] safe_float_shape [OF s]]
  have "dget r ''ratio'' =
               (case (dget r ''primary_a'', dget r ''secondary_a'') of
                  (PFloat p, PFloat s) \<Rightarrow>
                    if p \<noteq> Fin 0 \<and> s \<noteq> Fin 0 then PFloat (float_quot p s) else PNone
                | _ \<Rightarrow> PNone)" by simp
  with x relay block mem p s show ?thesis by blast
qed

lemma normalize_cts_ct_tree:
  assumes "safe_float rp (dget ct ''@primaryA'') = Inr p"
    and "safe_float rp (dget ct ''@secondaryA'') = Inr s"
    and "map_of ct ''@id'' = None" "map_of ct ''@location'' = None" "map_of ct ''@phase'' = None"
    and "map_of ct ''@class'' = None" "map_of ct ''@burdenVA'' = None" "map_of ct ''@coreId'' = None"
  shows "normalize_cts rp (ct_tree ct) = Inr (ct_table p s (ct_ratio p s))"
  using assms
  by (simp add: normalize_cts_def ct_tree_def cts_of_relay_def py_get_def dict_get_def ct_row_def
      ct_table_def py_or_def py_str_def fmt_eval safe_float_None)

lemma float_quot_100_5: "float_quot (Fin 100) (Fin 5) = Fin 20"
  by (simp add: float_quot_def round_range_mid)

text \<open>
  C4 as stated fails on a CT with primary \<^verbatim>\<open>"0"\<close> and secondary \<^verbatim>\<open>"5"\<close>: both coerce to
  present numbers and the secondary is not zero, yet the ratio is null and not
  \<open>0 / 5\<close>.
\<close>

theorem ct_zero_primary_counterexample:
  "safe_float no_repr (PStr ''0'') = Inr (PFloat (Fin 0))
   \<and> safe_float no_repr (PStr ''5'') = Inr (PFloat (Fin 5))
   \<and> PFloat (Fin 5) \<noteq> PFloat (Fin 0)
   \<and> normalize_cts no_repr (ct_tree [(''@primaryA'', PStr ''0''), (''@secondaryA'', PStr ''5'')])
       = Inr (ct_table (PFloat (Fin 0)) (PFloat (Fin 5)) PNone)"
  using normalize_cts_ct_tree [of no_repr "[(''@primaryA'', PStr ''0''), (''@secondaryA'', PStr ''5'')]"
      "PFloat (Fin 0)" "PFloat (Fin 5)"]
  by (simp add: safe_float_text_0 safe_float_text_5 dict_get_def ct_ratio_def)

theorem ct_ratio_rule_witness:
  "normalize_cts no_repr (ct_tree [(''@primaryA'', PStr ''100''), (''@secondaryA'', PStr ''5'')])
     = Inr (ct_table (PFloat (Fin 100)) (PFloat (Fin 5)) (PFloat (Fin 20)))
   \<and> hd (ct_table (PFloat (Fin 100)) (PFloat (Fin 5)) (PFloat (Fin 20)))
       \<in> set (ct_table (PFloat (Fin 100)) (PFloat (Fin 5)) (PFloat (Fin 20)))
   \<and> dget (hd (ct_table (PFloat (Fin 100)) (PFloat (Fin 5)) (PFloat (Fin 20)))) ''ratio''
       = PFloat (float_quot (Fin 100) (Fin 5))"
proof -
  have run: "normalize_cts no_repr (ct_tree [(''@primaryA'', PStr ''100''), (''@secondaryA'', PStr ''5'')])
     = Inr (ct_table (PFloat (Fin 100)) (PFloat (Fin 5)) (PFloat (Fin 20)))"
    using normalize_cts_ct_tree [of no_repr "[(''@primaryA'', PStr ''100''), (''@secondaryA'', PStr ''5'')]"
      "PFloat (Fin 100)" "PFloat (Fin 5)"]
    by (simp add: safe_float_text_100 safe_float_text_5 dict_get_def ct_ratio_def py_truediv_def
        float_div_def float_quot_100_5)
  have mem: "hd (ct_table (PFloat (Fin 100)) (PFloat (Fin 5)) (PFloat (Fin 20)))
       \<in> set (ct_table (PFloat (Fin 100)) (PFloat (Fin 5)) (PFloat (Fin 20)))"
    by (simp add: ct_table_def)
  from ct_ratio_rule [OF run mem] have
    "dget (hd (ct_table (PFloat (Fin 100)) (PFloat (Fin 5)) (PFloat (Fin 20)))) ''ratio''
       = PFloat (float_quot (Fin 100) (Fin 5))"
    by (auto simp: ct_table_def dict_get_def)
  with run mem show ?thesis by simp
qed

text \<open>The examples of the specification: 100 over 5, a zero secondary, an absent secondary.\<close>

lemma ct_ratio_examples:
  "normalize_cts rp (ct_tree [(''@primaryA'', PStr ''100''), (''@secondaryA'', PStr ''5'')])
     = Inr (ct_table (PFloat (Fin 100)) (PFloat (Fin 5)) (PFloat (Fin 20)))"
  "normalize_cts rp (ct_tree [(''@primaryA'', PStr ''100''), (''@secondaryA'', PStr ''0'')])
     = Inr (ct_table (PFloat (Fin 100)) (PFloat (Fin 0)) PNone)"
  "normalize_cts rp (ct_tree [(''@primaryA'', PStr ''100'')])
     = Inr (ct_table (PFloat (Fin 100)) PNone PNone)"
  using normalize_cts_ct_tree [of rp "[(''@primaryA'', PStr ''100''), (''@secondaryA'', PStr ''5'')]"
      "PFloat (Fin 100)" "PFloat (Fin 5)"]
    normalize_cts_ct_tree [of rp "[(''@primaryA'', PStr ''100''), (''@secondaryA'', PStr ''0'')]"
      "PFloat (Fin 100)" "PFloat (Fin 0)"]
    normalize_cts_ct_tree [of rp "[(''@primaryA'', PStr ''100'')]" "PFloat (Fin 100)" PNone]
  by (simp_all add: safe_float_text_100 safe_float_text_5 safe_float_text_0 safe_float_None
      dict_get_def ct_ratio_def py_truediv_def float_div_def float_quot_100_5)

section \<open>The extractors on the example trees\<close>

lemmas walk_eval = function_tree_def relay_functions_def py_get_def dict_get_def dict_has_def
  py_or_def py_str_def fmt_eval Let_def

lemmas set_eval = raw_of_entry_def startswith_def lstrip_at_def
  group_by_param_def add_to_group_def aggregate_settings_def settings_step_def settings_init_def
  py_lower_def lower_char_def make_setting_id_def

text \<open>
  C6.  The specification asks for an extension map with one entry per triple that is not mapped to
  a canonical column, and for the scenario's map to be exactly
  \<^verbatim>\<open>{"Blocking.enabled": "true"}\<close>.  The loop stores every triple under its composite key
  before it looks at the parameter name, so the scenario's row has \<^verbatim>\<open>pickup_pu = 1.25\<close> and
  an extension map of two entries, the mapped \<^verbatim>\<open>PickupPerUnit.value\<close> among them.
\<close>

theorem scenario_extra_holds_mapped_triple:
  "normalize_function_settings rp (function_tree scenario_function) =
     Inr [[(''setting_id'', PStr ''SET-R1-F1''),
           (''function_id'', PStr ''F1''),
           (''pickup_pu'', PFloat (Fin (5 / 4))),
           (''pickup_a'', PNone),
           (''time_dial'', PNone),
           (''min_time_seconds'', PNone),
           (''thermal_constant'', PNone),
           (''full_load_current'', PNone),
           (''trip_class'', PNone),
           (''extra_json'', PDict [(''PickupPerUnit.value'', PStr ''1.25''),
                                   (''Blocking.enabled'', PStr ''true'')])]]"
  by (simp add: normalize_function_settings_def settings_of_relay_def settings_of_function_def
      collect_raw_settings_for_function_def scenario_function_def walk_eval set_eval
      safe_float_text_1_25)

text \<open>
  C9.  The specification asks that no extractor raise on malformed optional data.  The elements of
  a block are tested with \<^verbatim>\<open>isinstance(x, dict)\<close>, the block itself is not: a settings
  block, a CT block or a VT block that is text, and an empty \<^verbatim>\<open>CoordinationMargin\<close> element
  (which the parser hands over as \<^verbatim>\<open>None\<close>), are asked for \<^verbatim>\<open>items\<close> or \<^verbatim>\<open>get\<close> and the
  extractor leaves with AttributeError.
\<close>

theorem extractors_raise_on_text_block:
  "normalize_function_settings rp (function_tree [(''@id'', PStr ''F1''), (''Settings'', PStr ''abc'')])
     = Inl AttributeError
   \<and> normalize_selectivity rp (function_tree
         [(''@id'', PStr ''F1''),
          (''Selectivity'', PDict [(''CoordinationMargin'', PNone),
                                   (''DownstreamDevice'', PDict [(''@id'', PStr ''D1'')])])])
     = Inl AttributeError
   \<and> normalize_cts rp [PDict [(''@id'', PStr ''R1''), (''CTs'', PStr ''abc'')]] = Inl AttributeError
   \<and> normalize_vts rp [PDict [(''@id'', PStr ''R1''), (''VTs'', PStr ''abc'')]] cs = Inl AttributeError"
  by (simp add: normalize_function_settings_def settings_of_relay_def settings_of_function_def
      collect_raw_settings_for_function_def normalize_selectivity_def selectivity_of_relay_def
      selectivity_of_function_def normalize_cts_def cts_of_relay_def normalize_vts_def
      vts_of_relay_def walk_eval)

text \<open>
  A relay without the optional block gives no row; the five extractors below function
  level share the test on \<^verbatim>\<open>ProtectionFunctions\<close>.
\<close>

lemma missing_block_no_rows:
  "map_of r ''CTs'' = None \<Longrightarrow> cts_of_relay rp (PDict r) = Inr []"
  "map_of r ''VTs'' = None \<Longrightarrow> vts_of_relay rp (PDict r) cs = Inr ([], cs)"
  "map_of r ''Parameters'' = None \<Longrightarrow> parameters_of_relay rp (PDict r) = Inr []"
  "map_of r ''ProtectionFunctions'' = None \<Longrightarrow> relay_functions r = Inr []"
  by (simp_all add: cts_of_relay_def vts_of_relay_def parameters_of_relay_def relay_functions_def
      dict_get_def)

lemmas curve_eval = curves_nodes_of_def node_attrs_def startswith_def lstrip_at_def dict_pop_def
  make_curve_id_def next_counter_def ID_COUNTERS_def first_curve_xml_id_def make_point_id_def
  parse_parametric_def safe_float_None

text \<open>
  C3.  The specification asks that the curve id of every point row be the curve id of a curve row.
  Both extractors call \<^verbatim>\<open>make_curve_id\<close>; when the relay id or the function id is missing
  and the curve has no \<^verbatim>\<open>@id\<close>, each call draws the next number of the shared counter, so
  in the order of the pipeline the curve row gets \<^verbatim>\<open>CUR-AUTO-000001\<close> and the point row
  \<^verbatim>\<open>CUR-AUTO-000002\<close>.  A function with points and no curve node gets point rows under
  \<^verbatim>\<open>CUR-R1-F1-01\<close> while the curve table is empty.
\<close>

theorem point_curve_id_without_curve_row:
  "normalize_function_curves rp (function_tree unnamed_curve_function) ID_COUNTERS =
     Inr ([[(''curve_id'', PStr ''CUR-AUTO-000001''), (''function_id'', PNone),
            (''family'', PStr ''IEC''), (''type'', PNone), (''standard'', PNone),
            (''pickup_pu'', PNone), (''pickup_a'', PNone), (''time_dial'', PNone),
            (''min_time_sec'', PNone), (''parametric'', PNone), (''extra_json'', PNone)]],
          [(''VT'', 0), (''SETTING'', 0), (''CURVE'', 1), (''POINT'', 0), (''PARAM'', 0), (''SEL'', 0)])
   \<and> normalize_curve_points rp (function_tree unnamed_curve_function)
       [(''VT'', 0), (''SETTING'', 0), (''CURVE'', 1), (''POINT'', 0), (''PARAM'', 0), (''SEL'', 0)] =
     Inr ([[(''point_id'', PStr ''PT-CUR-AUTO-000002-001''), (''curve_id'', PStr ''CUR-AUTO-000002''),
            (''base'', PNone), (''multiple'', PFloat (Fin 5)),
            (''time_seconds'', PFloat (Fin (5 / 4))), (''amps'', PNone), (''volts'', PNone)]],
          [(''VT'', 0), (''SETTING'', 0), (''CURVE'', 2), (''POINT'', 0), (''PARAM'', 0), (''SEL'', 0)])
   \<and> normalize_function_curves rp (function_tree points_only_function) ID_COUNTERS
       = Inr ([], ID_COUNTERS)
   \<and> normalize_curve_points rp (function_tree points_only_function) ID_COUNTERS =
     Inr ([[(''point_id'', PStr ''PT-CUR-R1-F1-01-001''), (''curve_id'', PStr ''CUR-R1-F1-01''),
            (''base'', PNone), (''multiple'', PFloat (Fin 5)),
            (''time_seconds'', PFloat (Fin (5 / 4))), (''amps'', PNone), (''volts'', PNone)]],
          ID_COUNTERS)"
  by (simp add: normalize_function_curves_def curves_of_relay_def curves_of_function_def
      curve_row_def normalize_curve_points_def points_of_relay_def points_of_function_def
      point_row_def unnamed_curve_function_def points_only_function_def walk_eval curve_eval
      safe_float_text_5 safe_float_text_1_25)

section \<open>The settings aggregator\<close>

lemma keys_dict_set: "set (map fst (dict_set d k v)) = insert k (set (map fst d))"
proof (induction d)
  case Nil
  then show ?case by simp
next
  case (Cons e d)
  obtain k' v' where e: "e = (k', v')" by (cases e)
  show ?case
  proof (cases "k' = k")
    case True
    then show ?thesis by (simp add: e)
  next
    case False
    then have "set (map fst (dict_set (e # d) k v)) = insert k' (set (map fst (dict_set d k v)))"
      by (simp add: e)
    also have "\<dots> = insert k (set (map fst (e # d)))"
      unfolding Cons.IH by (simp add: e insert_commute)
    finally show ?thesis .
  qed
qed

lemma fst_set_dict_set: "fst ` set (dict_set d k v) = insert k (fst ` set d)"
  using keys_dict_set [of d k v] by simp

lemma set_dict_set: "set (dict_set d k v) \<subseteq> insert (k, v) (set d)"
  by (induction d) (auto split: if_splits)

lemma safe_float_total: "\<not> float_overflows v \<Longrightarrow> \<exists>x. safe_float rp v = Inr x"
  by (cases v)
     (auto simp: safe_float_def float_overflows_def is_number_def float_of_number_def
       float_of_int_def Let_def split: option.splits)

lemma settings_step_extra:
  "settings_step rp p acc (a, v) = Inr acc' \<Longrightarrow> extra acc' = dict_set (extra acc) (p @ ''.'' @ a) v"
  by (auto simp: settings_step_def Let_def ebind_eq_Inr split: if_splits)

lemma settings_step_total:
  "\<not> float_overflows v \<Longrightarrow> \<exists>acc'. settings_step rp p acc (a, v) = Inr acc'"
  using safe_float_total [of v rp] by (auto simp: settings_step_def Let_def)

lemma efoldl_total:
  "(\<And>acc x. x \<in> set xs \<Longrightarrow> \<exists>acc'. step acc x = Inr acc') \<Longrightarrow> \<exists>acc'. efoldl step acc xs = Inr acc'"
proof (induction xs arbitrary: acc)
  case Nil
  then show ?case by simp
next
  case (Cons x xs)
  from Cons.prems [of x acc] obtain acc1 where "step acc x = Inr acc1" by auto
  moreover from Cons.IH [of acc1] Cons.prems obtain acc2 where "efoldl step acc1 xs = Inr acc2"
    by auto
  ultimately show ?case by simp
qed

lemma inner_loop_extra:
  "efoldl (settings_step rp p) acc items = Inr acc'
     \<Longrightarrow> fst ` set (extra acc') = fst ` set (extra acc) \<union> (\<lambda>(a, v). p @ ''.'' @ a) ` set items
       \<and> set (extra acc') \<subseteq> set (extra acc) \<union> (\<lambda>(a, v). (p @ ''.'' @ a, v)) ` set items"
proof (induction items arbitrary: acc)
  case Nil
  then show ?case by simp
next
  case (Cons it items)
  obtain a v where it: "it = (a, v)" by (cases it)
  from Cons.prems it obtain acc1 where s: "settings_step rp p acc (a, v) = Inr acc1"
    and r: "efoldl (settings_step rp p) acc1 items = Inr acc'"
    by (auto simp: ebind_eq_Inr)
  from settings_step_extra [OF s] have e: "extra acc1 = dict_set (extra acc) (p @ ''.'' @ a) v" .
  from Cons.IH [OF r] e it fst_set_dict_set [of "extra acc" "p @ ''.'' @ a" v]
    set_dict_set [of "extra acc" "p @ ''.'' @ a" v]
  show ?case by auto
qed

lemma outer_loop_extra:
  "efoldl (\<lambda>acc (p, items). efoldl (settings_step rp p) acc items) acc by_param = Inr acc'
     \<Longrightarrow> fst ` set (extra acc')
           = fst ` set (extra acc) \<union> (\<lambda>(p, a, v). p @ ''.'' @ a) ` triples_of by_param
       \<and> set (extra acc')
           \<subseteq> set (extra acc) \<union> (\<lambda>(p, a, v). (p @ ''.'' @ a, v)) ` triples_of by_param"
proof (induction by_param arbitrary: acc)
  case Nil
  then show ?case by (simp add: triples_of_def)
next
  case (Cons e by_param)
  obtain p items where e: "e = (p, items)" by (cases e)
  from Cons.prems e obtain acc1 where s: "efoldl (settings_step rp p) acc items = Inr acc1"
    and r: "efoldl (\<lambda>acc (p, items). efoldl (settings_step rp p) acc items) acc1 by_param = Inr acc'"
    by (auto simp: ebind_eq_Inr)
  have t: "triples_of (e # by_param) = (\<lambda>(a, v). (p, a, v)) ` set items \<union> triples_of by_param"
    by (simp add: triples_of_def e)
  from inner_loop_extra [OF s] Cons.IH [OF r] show ?case
    unfolding t by (auto simp: image_Un image_image split_def)
qed

lemma triples_of_add_to_group:
  "triples_of (add_to_group by_param (p, a, v)) = insert (p, a, v) (triples_of by_param)"
proof (induction by_param)
  case Nil
  then show ?case by (simp add: add_to_group_def triples_of_def dict_get_def)
next
  case (Cons e by_param)
  obtain k items where e: "e = (k, items)" by (cases e)
  show ?case
  proof (cases "k = p")
    case True
    then show ?thesis by (auto simp: add_to_group_def triples_of_def e dict_get_def)
  next
    case False
    then have "add_to_group (e # by_param) (p, a, v) = e # add_to_group by_param (p, a, v)"
      by (simp add: add_to_group_def e dict_get_def)
    then have "triples_of (add_to_group (e # by_param) (p, a, v))
        = (\<lambda>(a, v). (k, a, v)) ` set items \<union> triples_of (add_to_group by_param (p, a, v))"
      by (simp add: e triples_of_def)
    also have "\<dots> = insert (p, a, v) (triples_of (e # by_param))"
      unfolding Cons.IH by (auto simp: triples_of_def e)
    finally show ?thesis .
  qed
qed

lemma triples_of_foldl:
  "triples_of (foldl add_to_group bp raw) = triples_of bp \<union> set raw"
proof (induction raw arbitrary: bp)
  case Nil
  then show ?case by simp
next
  case (Cons t raw)
  obtain p a v where t: "t = (p, a, v)" by (cases t)
  show ?case unfolding t by (simp add: Cons.IH triples_of_add_to_group)
qed

lemma triples_of_group_by_param: "triples_of (group_by_param raw) = set raw"
  by (simp add: group_by_param_def triples_of_foldl) (simp add: triples_of_def)

lemma aggregate_settings_extra:
  assumes "aggregate_settings rp raw = Inr acc"
  shows "fst ` set (extra acc) = (\<lambda>(p, a, v). p @ ''.'' @ a) ` set raw"
    and "set (extra acc) \<subseteq> (\<lambda>(p, a, v). (p @ ''.'' @ a, v)) ` set raw"
  using outer_loop_extra [OF assms [unfolded aggregate_settings_def]]
  by (simp_all add: settings_init_def triples_of_group_by_param)

lemma aggregate_settings_total:
  assumes "\<forall>(p, a, v) \<in> set raw. \<not> float_overflows v"
  shows "\<exists>acc. aggregate_settings rp raw = Inr acc"
  unfolding aggregate_settings_def
proof (rule efoldl_total)
  fix acc and x :: "string \<times> (string \<times> pyval) list"
  assume x: "x \<in> set (group_by_param raw)"
  obtain p items where xp: "x = (p, items)" by (cases x)
  have "\<exists>acc'. efoldl (settings_step rp p) acc items = Inr acc'"
  proof (rule efoldl_total)
    fix acc1 and it :: "string \<times> pyval"
    assume it: "it \<in> set items"
    obtain a v where iv: "it = (a, v)" by (cases it)
    from x xp it iv have "(p, a, v) \<in> triples_of (group_by_param raw)"
      by (force simp: triples_of_def)
    then have "(p, a, v) \<in> set raw" by (simp add: triples_of_group_by_param)
    with assms have "\<not> float_overflows v" by auto
    from settings_step_total [OF this] show "\<exists>acc'. settings_step rp p acc1 it = Inr acc'"
      unfolding iv by blast
  qed
  then show "\<exists>acc'. (case x of (p, items) \<Rightarrow> efoldl (settings_step rp p) acc items) = Inr acc'"
    by (simp add: xp)
qed

lemma settings_of_function_row:
  assumes "collect_raw_settings_for_function rp f = Inr raw" and "raw \<noteq> []"
    and "aggregate_settings rp raw = Inr acc"
  shows "settings_of_function rp relay_id (PDict f) =
     Inr [[(''setting_id'', make_setting_id rp relay_id (py_or (dget f ''@id'') (PStr []))),
           (''function_id'', py_or (dget f ''@id'') (PStr [])),
           (''pickup_pu'', pickup_pu acc),
           (''pickup_a'', pickup_a acc),
           (''time_dial'', time_dial acc),
           (''min_time_seconds'', min_time_seconds acc),
           (''thermal_constant'', thermal_constant acc),
           (''full_load_current'', full_load_current acc),
           (''trip_class'', trip_class acc),
           (''extra_json'', if extra acc \<noteq> [] then PDict (extra acc) else PNone)]]"
  using assms by (simp add: settings_of_function_def Let_def)

text \<open>
  C7, as amended.  When a function's row is emitted, the composite key
  \<^verbatim>\<open><parameter>.<attribute>\<close> of every flattened triple is a key of the extension map, and
  the map holds the triple's own raw value under it whenever every triple with that
  composite key carries that value, in particular when no other triple has the key.  Two
  triples with one composite key share one entry.
\<close>

theorem extra_holds_every_composite_key:
  assumes "collect_raw_settings_for_function rp f = Inr raw"
    and "settings_of_function rp relay_id (PDict f) = Inr rows"
    and "(p, a, v) \<in> set raw"
  shows "\<exists>row ex. rows = [row] \<and> dget row ''extra_json'' = PDict ex
           \<and> p @ ''.'' @ a \<in> fst ` set ex
           \<and> ((\<forall>(p', a', v') \<in> set raw. p' @ ''.'' @ a' = p @ ''.'' @ a \<longrightarrow> v' = v)
                \<longrightarrow> map_of ex (p @ ''.'' @ a) = Some v)"
proof -
  from assms(3) have ne: "raw \<noteq> []" by auto
  from assms(1,2) ne obtain acc where acc: "aggregate_settings rp raw = Inr acc"
    by (auto simp: settings_of_function_def Let_def ebind_eq_Inr)
  from aggregate_settings_extra [OF acc]
  have keys: "fst ` set (extra acc) = (\<lambda>(p, a, v). p @ ''.'' @ a) ` set raw"
    and vals: "set (extra acc) \<subseteq> (\<lambda>(p, a, v). (p @ ''.'' @ a, v)) ` set raw"
    by simp_all
  from keys assms(3) have key: "p @ ''.'' @ a \<in> fst ` set (extra acc)" by force
  then have ex_ne: "extra acc \<noteq> []" by auto
  have val: "map_of (extra acc) (p @ ''.'' @ a) = Some v"
    if u: "\<forall>(p', a', v') \<in> set raw. p' @ ''.'' @ a' = p @ ''.'' @ a \<longrightarrow> v' = v"
  proof -
    from key obtain w where w: "map_of (extra acc) (p @ ''.'' @ a) = Some w"
      by (cases "map_of (extra acc) (p @ ''.'' @ a)") (auto simp: map_of_eq_None_iff)
    then have "(p @ ''.'' @ a, w) \<in> set (extra acc)" by (rule map_of_SomeD)
    with vals obtain p' a' where "(p', a', w) \<in> set raw" and "p' @ ''.'' @ a' = p @ ''.'' @ a"
      by auto
    with u have "w = v" by auto
    with w show ?thesis by simp
  qed
  from settings_of_function_row [OF assms(1) ne acc, of relay_id] assms(2) ex_ne
  have "rows = [[(''setting_id'', make_setting_id rp relay_id (py_or (dget f ''@id'') (PStr []))),
           (''function_id'', py_or (dget f ''@id'') (PStr [])),
           (''pickup_pu'', pickup_pu acc),
           (''pickup_a'', pickup_a acc),
           (''time_dial'', time_dial acc),
           (''min_time_seconds'', min_time_seconds acc),
           (''thermal_constant'', thermal_constant acc),
           (''full_load_current'', full_load_current acc),
           (''trip_class'', trip_class acc),
           (''extra_json'', PDict (extra acc))]]" by simp
  moreover have "dget [(''setting_id'', make_setting_id rp relay_id (py_or (dget f ''@id'') (PStr []))),
           (''function_id'', py_or (dget f ''@id'') (PStr [])),
           (''pickup_pu'', pickup_pu acc),
           (''pickup_a'', pickup_a acc),
           (''time_dial'', time_dial acc),
           (''min_time_seconds'', min_time_seconds acc),
           (''thermal_constant'', thermal_constant acc),
           (''full_load_current'', full_load_current acc),
           (''trip_class'', trip_class acc),
           (''extra_json'', PDict (extra acc))] ''extra_json'' = PDict (extra acc)"
    by (simp add: dict_get_def)
  ultimately show ?thesis using key val by blast
qed

text \<open>
  One function at a time: when its settings block flattens to at least one raw triple and
  no value is an integer too large for \<^verbatim>\<open>float\<close>, the loop body emits exactly one row,
  keyed \<^verbatim>\<open>SET-<relayId>-<functionId>\<close> with the function's \<^verbatim>\<open>@id\<close> (the empty text when it
  has none); it emits no row when no triple is found or the settings block is absent.
\<close>

lemma one_setting_row_per_function:
  assumes "collect_raw_settings_for_function rp f = Inr raw"
    and "\<forall>(p, a, v) \<in> set raw. \<not> float_overflows v"
  shows "(raw \<noteq> [] \<longrightarrow>
            (\<exists>row. settings_of_function rp relay_id (PDict f) = Inr [row]
               \<and> dget row ''setting_id'' =
                   PStr (''SET-'' @ py_str rp relay_id @ ''-''
                         @ py_str rp (py_or (dget f ''@id'') (PStr [])))
               \<and> dget row ''function_id'' = py_or (dget f ''@id'') (PStr [])))
         \<and> (raw = [] \<longrightarrow> settings_of_function rp relay_id (PDict f) = Inr [])
         \<and> (map_of f ''Settings'' = None \<longrightarrow> settings_of_function rp relay_id (PDict f) = Inr [])"
proof (intro conjI impI)
  assume ne: "raw \<noteq> []"
  from aggregate_settings_total [OF assms(2)] obtain acc
    where acc: "aggregate_settings rp raw = Inr acc" by blast
  show "\<exists>row. settings_of_function rp relay_id (PDict f) = Inr [row]
               \<and> dget row ''setting_id'' =
                   PStr (''SET-'' @ py_str rp relay_id @ ''-''
                         @ py_str rp (py_or (dget f ''@id'') (PStr [])))
               \<and> dget row ''function_id'' = py_or (dget f ''@id'') (PStr [])"
    unfolding settings_of_function_row [OF assms(1) ne acc]
    by (simp add: dict_get_def make_setting_id_def)
next
  assume "raw = []"
  with assms(1) show "settings_of_function rp relay_id (PDict f) = Inr []"
    by (simp add: settings_of_function_def Let_def)
next
  assume "map_of f ''Settings'' = None"
  then show "settings_of_function rp relay_id (PDict f) = Inr []"
    by (simp add: settings_of_function_def collect_raw_settings_for_function_def dict_get_def Let_def)
qed

text \<open>
  The FunctionSetting table of one relay is the rows of its functions, in document order.
\<close>

lemma normalize_function_settings_one_relay:
  "relay_functions r = Inr fs
     \<Longrightarrow> normalize_function_settings rp [PDict r]
         = for_rows (settings_of_function rp (dget r ''@id'')) fs"
  by (cases "for_rows (settings_of_function rp (dget r ''@id'')) fs")
     (simp_all add: normalize_function_settings_def settings_of_relay_def)

lemma collect_scenario: "collect_raw_settings_for_function rp scenario_function = Inr scenario_raw"
  by (simp add: collect_raw_settings_for_function_def scenario_function_def scenario_raw_def
      dict_get_def raw_of_entry_def startswith_def lstrip_at_def)

lemma settings_of_scenario:
  "settings_of_function rp (PStr ''R1'') (PDict scenario_function) =
     Inr [setting_row ''SET-R1-F1'' (PFloat (Fin (5 / 4)))
            [(''PickupPerUnit.value'', PStr ''1.25''), (''Blocking.enabled'', PStr ''true'')]]"
  by (simp add: settings_of_function_def collect_scenario)
     (simp add: scenario_raw_def scenario_function_def setting_row_def dict_get_def py_or_def
       py_str_def set_eval safe_float_text_1_25)

text \<open>
  C7 as stated fails when two triples have one composite key: the settings elements
  \<^verbatim>\<open><A.B c="1"/>\<close> and \<^verbatim>\<open><A B.c="2"/>\<close> both give \<^verbatim>\<open>A.B.c\<close>, and the map keeps the
  second value only.
\<close>

theorem colliding_composite_keys_counterexample:
  "collect_raw_settings_for_function no_repr colliding_function
     = Inr [(''A.B'', ''c'', PStr ''1''), (''A'', ''B.c'', PStr ''2'')]
   \<and> normalize_function_settings no_repr (function_tree colliding_function)
     = Inr [setting_row ''SET-R1-F1'' PNone [(''A.B.c'', PStr ''2'')]]
   \<and> map_of [(''A.B.c'', PStr ''2'')] (''A.B'' @ ''.'' @ ''c'') \<noteq> Some (PStr ''1'')"
  by (simp add: normalize_function_settings_def settings_of_relay_def settings_of_function_def
      collect_raw_settings_for_function_def colliding_function_def setting_row_def walk_eval
      set_eval)

theorem extra_holds_every_composite_key_witness:
  "collect_raw_settings_for_function no_repr scenario_function = Inr scenario_raw
   \<and> (''Blocking'', ''enabled'', PStr ''true'') \<in> set scenario_raw
   \<and> settings_of_function no_repr (PStr ''R1'') (PDict scenario_function) =
       Inr [setting_row ''SET-R1-F1'' (PFloat (Fin (5 / 4)))
              [(''PickupPerUnit.value'', PStr ''1.25''), (''Blocking.enabled'', PStr ''true'')]]
   \<and> map_of [(''PickupPerUnit.value'', PStr ''1.25''), (''Blocking.enabled'', PStr ''true'')]
         (''Blocking'' @ ''.'' @ ''enabled'') = Some (PStr ''true'')"
proof -
  have mem: "(''Blocking'', ''enabled'', PStr ''true'') \<in> set scenario_raw"
    by (simp add: scenario_raw_def)
  have uniq: "\<forall>(p', a', v') \<in> set scenario_raw.
      p' @ ''.'' @ a' = ''Blocking'' @ ''.'' @ ''enabled'' \<longrightarrow> v' = PStr ''true''"
    by (simp add: scenario_raw_def)
  from extra_holds_every_composite_key
         [where rp = no_repr, OF collect_scenario settings_of_scenario mem] uniq
  have "map_of [(''PickupPerUnit.value'', PStr ''1.25''), (''Blocking.enabled'', PStr ''true'')]
         (''Blocking'' @ ''.'' @ ''enabled'') = Some (PStr ''true'')"
    by (auto simp: setting_row_def dict_get_def)
  with collect_scenario settings_of_scenario mem show ?thesis by simp
qed

text \<open>
  C8.  The specification asks for exactly one row per function whose settings block
  flattens to at least one raw triple.  The rows are collected in one list for the whole
  relay list and an exception in any function leaves the extractor: function \<^verbatim>\<open>F1\<close> of
  the scenario flattens to two triples and gets its row when it stands alone, but next to a
  function whose settings element holds text the extractor leaves with AttributeError
  and no row is emitted for \<^verbatim>\<open>F1\<close>.
\<close>

theorem setting_row_lost_when_sibling_raises:
  "collect_raw_settings_for_function rp scenario_function
     = Inr [(''PickupPerUnit'', ''value'', PStr ''1.25''), (''Blocking'', ''enabled'', PStr ''true'')]
   \<and> normalize_function_settings rp (function_tree scenario_function)
     = Inr [setting_row ''SET-R1-F1'' (PFloat (Fin (5 / 4)))
              [(''PickupPerUnit.value'', PStr ''1.25''), (''Blocking.enabled'', PStr ''true'')]]
   \<and> normalize_function_settings rp sibling_text_settings = Inl AttributeError"
proof (intro conjI)
  show "collect_raw_settings_for_function rp scenario_function
     = Inr [(''PickupPerUnit'', ''value'', PStr ''1.25''), (''Blocking'', ''enabled'', PStr ''true'')]"
    using collect_scenario [of rp] by (simp add: scenario_raw_def)
  show "normalize_function_settings rp (function_tree scenario_function)
     = Inr [setting_row ''SET-R1-F1'' (PFloat (Fin (5 / 4)))
              [(''PickupPerUnit.value'', PStr ''1.25''), (''Blocking.enabled'', PStr ''true'')]]"
    by (simp add: normalize_function_settings_def settings_of_relay_def function_tree_def
        relay_functions_def py_get_def dict_get_def settings_of_scenario [unfolded dict_get_def])
  have "settings_of_function rp (PStr ''R1'') (PDict [(''@id'', PStr ''F2''), (''Settings'', PStr ''abc'')])
      = Inl AttributeError"
    by (simp add: settings_of_function_def collect_raw_settings_for_function_def dict_get_def
        py_or_def)
  then show "normalize_function_settings rp sibling_text_settings = Inl AttributeError"
    by (simp add: normalize_function_settings_def settings_of_relay_def sibling_text_settings_def
        relay_functions_def py_get_def dict_get_def settings_of_scenario [unfolded dict_get_def])
qed

section \<open>Counters across passes\<close>

lemma counter_freeI:
  "(\<And>cs r cs1 cs2. m cs = Inr (r, cs1) \<Longrightarrow> \<exists>cs3. m cs2 = Inr (r, cs3)) \<Longrightarrow> counter_free m"
  unfolding counter_free_def by blast

lemma counter_freeD:
  "counter_free m \<Longrightarrow> m cs = Inr (r, cs1) \<Longrightarrow> \<exists>cs3. m cs2 = Inr (r, cs3)"
  unfolding counter_free_def by blast

lemma counter_free_pure: "counter_free (\<lambda>cs. Inr (r, cs))"
  by (rule counter_freeI) simp

lemma counter_free_error: "counter_free (\<lambda>cs. Inl e)"
  by (rule counter_freeI) simp

lemma counter_free_ebind_const:
  assumes "\<And>x. counter_free (g x)"
  shows "counter_free (\<lambda>cs. ebind m (\<lambda>x. g x cs))"
proof (cases m)
  case (Inl e)
  then show ?thesis by (simp add: counter_free_error)
next
  case (Inr x)
  with assms [of x] show ?thesis by simp
qed

lemma counter_free_if:
  "counter_free a \<Longrightarrow> counter_free b \<Longrightarrow> counter_free (\<lambda>cs. if c then a cs else b cs)"
  by (cases c) simp_all

lemma counter_free_bind:
  assumes m: "counter_free m" and f: "\<And>r. counter_free (f r)"
  shows "counter_free (\<lambda>cs. ebind (m cs) (\<lambda>(r, cs1). f r cs1))"
proof (rule counter_freeI)
  fix cs r cs1 cs2
  assume "ebind (m cs) (\<lambda>(r, cs1). f r cs1) = Inr (r, cs1)"
  then obtain r0 cs0 where m1: "m cs = Inr (r0, cs0)" and f1: "f r0 cs0 = Inr (r, cs1)"
    by (auto simp: ebind_eq_Inr)
  from counter_freeD [OF m m1, of cs2] obtain cs3 where m2: "m cs2 = Inr (r0, cs3)" by blast
  from counter_freeD [OF f f1, of cs3] obtain cs4 where f2: "f r0 cs3 = Inr (r, cs4)" by blast
  from m2 f2 show "\<exists>cs3. ebind (m cs2) (\<lambda>(r, cs1). f r cs1) = Inr (r, cs3)" by simp
qed

lemma for_rows_st_counter_free:
  assumes "\<And>x. x \<in> set xs \<Longrightarrow> counter_free (body x)"
  shows "counter_free (for_rows_st body xs)"
  using assms
proof (induction xs)
  case Nil
  show ?case by (rule counter_freeI) simp
next
  case (Cons x xs)
  have hd: "counter_free (body x)" by (rule Cons.prems) simp
  have tl: "counter_free (for_rows_st body xs)" by (rule Cons.IH) (rule Cons.prems, simp)
  have tail: "\<And>r. counter_free (\<lambda>cs1. ebind (for_rows_st body xs cs1) (\<lambda>(rs, cs2). Inr (r @ rs, cs2)))"
    by (rule counter_free_bind [OF tl]) (rule counter_free_pure)
  have "counter_free (\<lambda>cs. ebind (body x cs) (\<lambda>(r, cs1).
          ebind (for_rows_st body xs cs1) (\<lambda>(rs, cs2). Inr (r @ rs, cs2))))"
    by (rule counter_free_bind [OF hd]) (rule tail)
  moreover have "for_rows_st body (x # xs) = (\<lambda>cs. ebind (body x cs) (\<lambda>(r, cs1).
          ebind (for_rows_st body xs cs1) (\<lambda>(rs, cs2). Inr (r @ rs, cs2))))"
    by (rule ext) simp
  ultimately show ?case by (simp only:)
qed

lemma make_vt_id_not_drawn:
  "\<not> vt_key_drawn relay_id vt_xml_id \<Longrightarrow>
     make_vt_id rp relay_id vt_xml_id idx cs = (fst (make_vt_id rp relay_id vt_xml_id idx []), cs)"
  by (auto simp: make_vt_id_def vt_key_drawn_def)

lemma make_curve_id_not_drawn:
  "\<not> curve_key_drawn relay_id func_id curve_xml_id \<Longrightarrow>
     make_curve_id rp relay_id func_id curve_xml_id idx cs
       = (fst (make_curve_id rp relay_id func_id curve_xml_id idx []), cs)"
  by (auto simp: make_curve_id_def curve_key_drawn_def)

lemma counter_free_after_make_vt:
  assumes "\<not> vt_key_drawn relay_id vt_xml_id" and "\<And>i. counter_free (g i)"
  shows "counter_free (\<lambda>cs. case make_vt_id rp relay_id vt_xml_id idx cs of (i, cs1) \<Rightarrow> g i cs1)"
  by (subst make_vt_id_not_drawn [OF assms(1)]) (simp add: assms(2))

lemma counter_free_after_make_curve:
  assumes "\<not> curve_key_drawn relay_id func_id curve_xml_id" and "\<And>i. counter_free (g i)"
  shows "counter_free
    (\<lambda>cs. case make_curve_id rp relay_id func_id curve_xml_id idx cs of (i, cs1) \<Rightarrow> g i cs1)"
  by (subst make_curve_id_not_drawn [OF assms(1)]) (simp add: assms(2))

lemma not_list_ex_enumerate:
  "\<not> list_ex P xs \<Longrightarrow> ix \<in> set (enumerate n xs) \<Longrightarrow> \<not> P (snd ix)"
  using enumerate_mem [of ix n xs] by (auto simp: list_ex_iff)

lemma vt_row_counter_free:
  assumes "\<not> vt_node_drawn relay_id (snd iv)"
  shows "counter_free (vt_row rp relay_id vt_defined vt_enabled iv)"
proof (cases iv)
  case (Pair idx v)
  show ?thesis
  proof (cases v)
    case (PDict vt)
    from assms Pair PDict have nd: "\<not> vt_key_drawn relay_id (dget vt ''@id'')"
      by (simp add: vt_node_drawn_def)
    have "counter_free (\<lambda>cs. vt_row rp relay_id vt_defined vt_enabled (idx, PDict vt) cs)"
      unfolding vt_row_def prod.case pyval.case Let_def
      by (rule counter_free_after_make_vt [OF nd])
         (intro counter_free_ebind_const counter_free_pure)
    then show ?thesis by (simp add: Pair PDict)
  qed (simp_all add: counter_free_def vt_row_def Pair)
qed

lemma vts_of_relay_counter_free:
  assumes "\<not> vt_rows_drawn relay"
  shows "counter_free (vts_of_relay rp relay)"
proof (cases relay)
  case (PDict r)
  show ?thesis
  proof (cases "dget r ''VTs''")
    case (PDict b)
    note block = this
    show ?thesis
    proof (cases "b = []")
      case True
      with block \<open>relay = PDict r\<close> show ?thesis
        by (simp add: counter_free_def vts_of_relay_def)
    next
      case False
      show ?thesis
      proof (cases "dget b ''VT'' = PNone")
        case True
        with assms block False \<open>relay = PDict r\<close>
        have nd: "\<not> vt_key_drawn (dget r ''@id'') PNone"
          by (simp add: vt_rows_drawn_def)
        have "counter_free (\<lambda>cs. case make_vt_id rp (dget r ''@id'') PNone 1 cs of
                (vt_id, cs1) \<Rightarrow>
                  Inr ([[(''relay_id'', dget r ''@id''), (''vt_id'', vt_id), (''location'', PNone),
                         (''primary_kv'', PNone), (''secondary_v'', PNone), (''connection'', PNone),
                         (''burden_va'', PNone), (''vt_defined'', dget b ''@vtDefined''),
                         (''vt_enabled'', dget b ''@vtEnabled'')]], cs1))"
          by (rule counter_free_after_make_vt [OF nd]) (rule counter_free_pure)
        moreover have "vts_of_relay rp relay = (\<lambda>cs. case make_vt_id rp (dget r ''@id'') PNone 1 cs of
                (vt_id, cs1) \<Rightarrow>
                  Inr ([[(''relay_id'', dget r ''@id''), (''vt_id'', vt_id), (''location'', PNone),
                         (''primary_kv'', PNone), (''secondary_v'', PNone), (''connection'', PNone),
                         (''burden_va'', PNone), (''vt_defined'', dget b ''@vtDefined''),
                         (''vt_enabled'', dget b ''@vtEnabled'')]], cs1))"
          using True False block \<open>relay = PDict r\<close>
          by (intro ext) (simp add: vts_of_relay_def py_get_def Let_def)
        ultimately show ?thesis by (simp only:)
      next
        case nodes: False
        with assms block \<open>b \<noteq> []\<close> \<open>relay = PDict r\<close>
        have nd: "\<not> list_ex (vt_node_drawn (dget r ''@id'')) (ensure_list (dget b ''VT''))"
          by (simp add: vt_rows_drawn_def)
        have "counter_free (for_rows_st
                (vt_row rp (dget r ''@id'') (dget b ''@vtDefined'') (dget b ''@vtEnabled''))
                (enumerate 1 (ensure_list (dget b ''VT''))))"
          by (rule for_rows_st_counter_free, rule vt_row_counter_free)
             (rule not_list_ex_enumerate [OF nd])
        moreover have "vts_of_relay rp relay = for_rows_st
                (vt_row rp (dget r ''@id'') (dget b ''@vtDefined'') (dget b ''@vtEnabled''))
                (enumerate 1 (ensure_list (dget b ''VT'')))"
          using nodes \<open>b \<noteq> []\<close> block \<open>relay = PDict r\<close>
          by (intro ext) (simp add: vts_of_relay_def py_get_def Let_def)
        ultimately show ?thesis by (simp only:)
      qed
    qed
  qed (use \<open>relay = PDict r\<close> in
        \<open>simp_all add: counter_free_def vts_of_relay_def py_get_def Let_def\<close>)
qed (simp_all add: counter_free_def vts_of_relay_def)

lemma curve_row_counter_free:
  assumes "\<not> curve_node_drawn relay_id func_id (snd ic)"
  shows "counter_free (curve_row rp relay_id func_id ic)"
proof (cases ic)
  case (Pair idx v)
  show ?thesis
  proof (cases v)
    case (PDict curve)
    from assms Pair PDict
    have nd: "\<not> curve_key_drawn relay_id func_id (dget (node_attrs curve) ''id'')"
      by (simp add: curve_node_drawn_def)
    have "counter_free (\<lambda>cs. curve_row rp relay_id func_id (idx, PDict curve) cs)"
      unfolding curve_row_def prod.case pyval.case Let_def dict_pop_def
      by (rule counter_free_after_make_curve [OF nd])
         (intro counter_free_ebind_const counter_free_pure)
    then show ?thesis by (simp add: Pair PDict)
  qed (simp_all add: counter_free_def curve_row_def Pair)
qed

lemma curves_of_function_counter_free:
  assumes "\<not> curve_rows_drawn relay_id func"
  shows "counter_free (curves_of_function rp relay_id func)"
proof (cases func)
  case (PDict f)
  show ?thesis
  proof (cases "curves_nodes_of f")
    case (Inl e)
    with PDict show ?thesis by (simp add: counter_free_def curves_of_function_def)
  next
    case (Inr cn)
    with assms PDict have nd: "\<not> list_ex (curve_node_drawn relay_id (dget f ''@id'')) cn"
      by (simp add: curve_rows_drawn_def)
    have "counter_free (for_rows_st (curve_row rp relay_id (dget f ''@id'')) (enumerate 1 cn))"
      by (rule for_rows_st_counter_free, rule curve_row_counter_free)
         (rule not_list_ex_enumerate [OF nd])
    moreover have "curves_of_function rp relay_id func
        = for_rows_st (curve_row rp relay_id (dget f ''@id'')) (enumerate 1 cn)"
      using Inr PDict by (intro ext) (simp add: curves_of_function_def)
    ultimately show ?thesis by (simp only:)
  qed
qed (simp_all add: counter_free_def curves_of_function_def)

lemma for_rows_all_empty:
  "(\<And>x. x \<in> set xs \<Longrightarrow> body x = Inr []) \<Longrightarrow> for_rows body xs = Inr []"
  by (induction xs) simp_all

lemma point_rows_none:
  assumes "\<not> list_ex is_dict pts"
  shows "for_rows (point_row rp cid base) (enumerate n pts) = Inr []"
proof (rule for_rows_all_empty)
  fix x assume "x \<in> set (enumerate n pts)"
  from not_list_ex_enumerate [OF assms this] have "\<not> is_dict (snd x)" .
  then show "point_row rp cid base x = Inr []"
    by (cases x; cases "snd x") (simp_all add: point_row_def is_dict_def)
qed

lemma points_of_function_counter_free:
  assumes "\<not> point_rows_drawn relay_id func"
  shows "counter_free (points_of_function rp relay_id func)"
proof (cases func)
  case (PDict f)
  show ?thesis
  proof (cases "curves_nodes_of f")
    case (Inl e)
    with PDict show ?thesis by (simp add: counter_free_def points_of_function_def)
  next
    case (Inr cn)
    show ?thesis
    proof (cases "curve_key_drawn relay_id (dget f ''@id'') (first_curve_xml_id cn)")
      case False
      have "counter_free (\<lambda>cs. points_of_function rp relay_id (PDict f) cs)"
        unfolding points_of_function_def pyval.case Let_def Inr ebind_Inr
        by (rule counter_free_after_make_curve [OF False])
           (intro counter_free_if counter_free_ebind_const counter_free_pure)
      then show ?thesis by (simp add: PDict)
    next
      case True
      let ?mk = "make_curve_id rp relay_id (dget f ''@id'') (first_curve_xml_id cn) 1"
      let ?cp = "dget f ''CurvePoints''"
      have none: "for_rows (point_row rp cid base) (enumerate 1 (ensure_list (dget cp ''Point''))) = Inr []"
        if "?cp = PDict cp" for cid base cp
      proof (rule point_rows_none)
        from assms PDict Inr True that
        show "\<not> list_ex is_dict (ensure_list (dget cp ''Point''))"
          by (simp add: point_rows_drawn_def)
      qed
      have shape: "points_of_function rp relay_id func cs =
          (if py_truthy ?cp \<and> \<not> is_dict ?cp then Inl AttributeError else Inr ([], snd (?mk cs)))"
        for cs
      proof (cases "?cp")
        case (PDict cp)
        with none [OF PDict] \<open>func = PDict f\<close> Inr show ?thesis
          by (simp add: points_of_function_def Let_def py_get_def is_dict_def split_beta)
      qed (use \<open>func = PDict f\<close> Inr in
            \<open>simp_all add: points_of_function_def Let_def py_get_def is_dict_def split_beta\<close>)
      show ?thesis
        by (rule counter_freeI) (auto simp: shape split: if_splits)
    qed
  qed
qed (simp_all add: counter_free_def points_of_function_def)

lemma curves_of_relay_counter_free:
  assumes "\<not> relay_emits_counter_key relay"
  shows "counter_free (curves_of_relay rp relay)"
proof (cases relay)
  case (PDict r)
  show ?thesis
  proof (cases "relay_functions r")
    case (Inl e)
    with PDict show ?thesis by (simp add: counter_free_def curves_of_relay_def)
  next
    case (Inr fs)
    with assms PDict have nd: "\<not> list_ex (\<lambda>func. curve_rows_drawn (dget r ''@id'') func
                                    \<or> point_rows_drawn (dget r ''@id'') func) fs"
      by (simp add: relay_emits_counter_key_def)
    have "counter_free (for_rows_st (curves_of_function rp (dget r ''@id'')) fs)"
    proof (rule for_rows_st_counter_free, rule curves_of_function_counter_free)
      fix x assume "x \<in> set fs"
      with nd show "\<not> curve_rows_drawn (dget r ''@id'') x" by (auto simp: list_ex_iff)
    qed
    moreover have "curves_of_relay rp relay = for_rows_st (curves_of_function rp (dget r ''@id'')) fs"
      using Inr PDict by (intro ext) (simp add: curves_of_relay_def)
    ultimately show ?thesis by (simp only:)
  qed
qed (simp_all add: counter_free_def curves_of_relay_def)

lemma points_of_relay_counter_free:
  assumes "\<not> relay_emits_counter_key relay"
  shows "counter_free (points_of_relay rp relay)"
proof (cases relay)
  case (PDict r)
  show ?thesis
  proof (cases "relay_functions r")
    case (Inl e)
    with PDict show ?thesis by (simp add: counter_free_def points_of_relay_def)
  next
    case (Inr fs)
    with assms PDict have nd: "\<not> list_ex (\<lambda>func. curve_rows_drawn (dget r ''@id'') func
                                    \<or> point_rows_drawn (dget r ''@id'') func) fs"
      by (simp add: relay_emits_counter_key_def)
    have "counter_free (for_rows_st (points_of_function rp (dget r ''@id'')) fs)"
    proof (rule for_rows_st_counter_free, rule points_of_function_counter_free)
      fix x assume "x \<in> set fs"
      with nd show "\<not> point_rows_drawn (dget r ''@id'') x" by (auto simp: list_ex_iff)
    qed
    moreover have "points_of_relay rp relay = for_rows_st (points_of_function rp (dget r ''@id'')) fs"
      using Inr PDict by (intro ext) (simp add: points_of_relay_def)
    ultimately show ?thesis by (simp only:)
  qed
qed (simp_all add: counter_free_def points_of_relay_def)

lemma vts_of_relay_counter_free_relay:
  assumes "\<not> relay_emits_counter_key relay"
  shows "counter_free (vts_of_relay rp relay)"
proof (cases relay)
  case (PDict r)
  with assms have "\<not> vt_rows_drawn relay" by (simp add: relay_emits_counter_key_def)
  then show ?thesis by (rule vts_of_relay_counter_free)
qed (simp_all add: counter_free_def vts_of_relay_def)

lemma run_normalize_pipeline_counter_free:
  assumes "\<not> emits_counter_key relays"
  shows "counter_free (run_normalize_pipeline rp relays)"
proof -
  have each: "\<not> relay_emits_counter_key x" if "x \<in> set relays" for x
    using assms that by (auto simp: emits_counter_key_def list_ex_iff)
  have vts: "counter_free (normalize_vts rp relays)"
  proof -
    have "counter_free (for_rows_st (vts_of_relay rp) relays)"
      by (rule for_rows_st_counter_free, rule vts_of_relay_counter_free_relay) (rule each)
    moreover have "normalize_vts rp relays = for_rows_st (vts_of_relay rp) relays"
      by (intro ext) (simp add: normalize_vts_def)
    ultimately show ?thesis by (simp only:)
  qed
  have curves: "counter_free (normalize_function_curves rp relays)"
  proof -
    have "counter_free (for_rows_st (curves_of_relay rp) relays)"
      by (rule for_rows_st_counter_free, rule curves_of_relay_counter_free) (rule each)
    moreover have "normalize_function_curves rp relays = for_rows_st (curves_of_relay rp) relays"
      by (intro ext) (simp add: normalize_function_curves_def)
    ultimately show ?thesis by (simp only:)
  qed
  have points: "counter_free (normalize_curve_points rp relays)"
  proof -
    have "counter_free (for_rows_st (points_of_relay rp) relays)"
      by (rule for_rows_st_counter_free, rule points_of_relay_counter_free) (rule each)
    moreover have "normalize_curve_points rp relays = for_rows_st (points_of_relay rp) relays"
      by (intro ext) (simp add: normalize_curve_points_def)
    ultimately show ?thesis by (simp only:)
  qed
  have "counter_free (\<lambda>cs. run_normalize_pipeline rp relays cs)"
    unfolding run_normalize_pipeline_def
    by (intro counter_free_ebind_const counter_free_bind counter_free_pure vts curves points)
  then show ?thesis .
qed

text \<open>
  C1, as amended.  The counters are set when the module is imported and no function
  resets them, so a pass starts from the counters the earlier pass left.  On a tree for
  which the pass emits no row keyed from a fallback counter (no VT row keyed
  \<^verbatim>\<open>VT-AUTO-n\<close>, no curve row keyed \<^verbatim>\<open>CUR-AUTO-n\<close>, no point row under such a curve id),
  the second pass, started from the counters the first one left, returns the same nine
  tables: same rows, same values, same order.  The counters themselves may have moved:
  the point extractor draws a curve number for every function it cannot key by position,
  also when the function has no point.
\<close>

theorem second_pass_same_without_counter_key:
  assumes "run_normalize_pipeline rp relays cs = Inr (tables, cs1)"
    and "\<not> emits_counter_key relays"
  shows "\<exists>cs2. run_normalize_pipeline rp relays cs1 = Inr (tables, cs2)"
  by (rule counter_freeD [OF run_normalize_pipeline_counter_free [OF assms(2)] assms(1)])

lemmas pipeline_eval = run_normalize_pipeline_def normalize_relays_core_def relay_core_row_def
  normalize_cts_def cts_of_relay_def normalize_vts_def vts_of_relay_def
  normalize_functions_def functions_of_relay_def function_row_def
  normalize_function_settings_def settings_of_relay_def
  normalize_function_curves_def curves_of_relay_def curves_of_function_def
  normalize_curve_points_def points_of_relay_def points_of_function_def
  normalize_parameters_def parameters_of_relay_def
  normalize_selectivity_def selectivity_of_relay_def selectivity_of_function_def
  make_vt_id_def core_row_def

lemma run_vt_flags_first:
  "run_normalize_pipeline rp vt_flags_tree ID_COUNTERS
     = Inr (vt_flags_tables ''VT-AUTO-000001'', counters_at 1 0)"
  by (simp add: pipeline_eval vt_flags_tree_def vt_flags_tables_def counters_at_def walk_eval
      curve_eval)

lemma run_vt_flags_second:
  "run_normalize_pipeline rp vt_flags_tree (counters_at 1 0)
     = Inr (vt_flags_tables ''VT-AUTO-000002'', counters_at 2 0)"
  by (simp add: pipeline_eval vt_flags_tree_def vt_flags_tables_def counters_at_def walk_eval
      curve_eval)

text \<open>
  C1 as stated fails on a relay without \<^verbatim>\<open>@id\<close> whose VT block has flags only: the first
  pass keys the synthesised VT \<^verbatim>\<open>VT-AUTO-000001\<close>, the second pass, started from the
  counters the first one left, keys it \<^verbatim>\<open>VT-AUTO-000002\<close>.
\<close>

theorem second_pass_differs_counterexample:
  "run_normalize_pipeline no_repr vt_flags_tree ID_COUNTERS
     = Inr (vt_flags_tables ''VT-AUTO-000001'', counters_at 1 0)
   \<and> run_normalize_pipeline no_repr vt_flags_tree (counters_at 1 0)
     = Inr (vt_flags_tables ''VT-AUTO-000002'', counters_at 2 0)
   \<and> vt_flags_tables ''VT-AUTO-000001'' \<noteq> vt_flags_tables ''VT-AUTO-000002''"
  by (simp add: run_vt_flags_first run_vt_flags_second) (simp add: vt_flags_tables_def)

lemma run_unnamed_function:
  "run_normalize_pipeline rp unnamed_function_tree ID_COUNTERS
     = Inr (unnamed_function_tables, counters_at 0 1)"
  by (simp add: pipeline_eval unnamed_function_tree_def unnamed_function_tables_def
      counters_at_def settings_of_function_def collect_raw_settings_for_function_def walk_eval
      curve_eval py_in_def)

lemma unnamed_function_no_counter_key: "\<not> emits_counter_key unnamed_function_tree"
  by (simp add: emits_counter_key_def relay_emits_counter_key_def vt_rows_drawn_def
      curve_rows_drawn_def point_rows_drawn_def unnamed_function_tree_def function_tree_def
      relay_functions_def py_get_def dict_get_def dict_has_def curves_nodes_of_def)

theorem second_pass_same_witness:
  "run_normalize_pipeline no_repr unnamed_function_tree ID_COUNTERS
     = Inr (unnamed_function_tables, counters_at 0 1)
   \<and> \<not> emits_counter_key unnamed_function_tree
   \<and> counters_at 0 1 \<noteq> ID_COUNTERS
   \<and> (\<exists>cs2. run_normalize_pipeline no_repr unnamed_function_tree (counters_at 0 1)
                = Inr (unnamed_function_tables, cs2))"
proof -
  have moved: "counters_at 0 1 \<noteq> ID_COUNTERS"
    by (simp add: counters_at_def ID_COUNTERS_def)
  from second_pass_same_without_counter_key
         [OF run_unnamed_function unnamed_function_no_counter_key, of no_repr]
  have "\<exists>cs2. run_normalize_pipeline no_repr unnamed_function_tree (counters_at 0 1)
                = Inr (unnamed_function_tables, cs2)" .
  with run_unnamed_function [of no_repr] unnamed_function_no_counter_key moved
  show ?thesis by simp
qed

section \<open>Keys among siblings\<close>

lemma digit_val_nth: "d < 10 \<Longrightarrow> digit_val (''0123456789'' ! d) = d"
proof -
  assume "d < 10"
  then consider "d = 0" | "d = 1" | "d = 2" | "d = 3" | "d = 4" | "d = 5" | "d = 6" | "d = 7"
    | "d = 8" | "d = 9" by atomize_elim arith
  then show ?thesis by cases (simp_all add: digit_val_def)
qed

lemma digits_val_snoc: "digits_val (ds @ [c]) = 10 * digits_val ds + digit_val c"
  by (simp add: digits_val_def)

lemma digits_val_dec_digits: "digits_val (dec_digits n) = n"
proof (induction n rule: dec_digits.induct)
  case (1 n)
  show ?case
  proof (cases "n < 10")
    case True
    then show ?thesis
      by (subst dec_digits.simps) (simp add: digits_val_def digit_val_nth)
  next
    case False
    with 1 have "digits_val (dec_digits (n div 10)) = n div 10" by simp
    with False show ?thesis
      by (subst dec_digits.simps) (simp add: digits_val_snoc digit_val_nth)
  qed
qed

lemma digits_val_zeros: "digits_val (replicate k (CHR ''0'') @ ds) = digits_val ds"
proof -
  have "foldl (\<lambda>a c. 10 * a + digit_val c) 0 (replicate k (CHR ''0'')) = 0"
    by (induction k) (simp_all add: digit_val_def)
  then show ?thesis by (simp add: digits_val_def)
qed

lemma digits_val_fmt_d: "digits_val (fmt_d w n) = n"
  by (simp add: fmt_d_def Let_def digits_val_zeros digits_val_dec_digits)

lemma fmt_d_inj: "fmt_d w m = fmt_d w n \<Longrightarrow> m = n"
  by (metis digits_val_fmt_d)

lemma column_append: "column name (r @ rs) = column name r @ column name rs"
  by (simp add: column_def)

lemma for_rows_column:
  assumes "for_rows body xs = Inr rows"
    and "\<And>x rs. x \<in> set xs \<Longrightarrow> body x = Inr rs \<Longrightarrow> column name rs = (if sel x then [g x] else [])"
  shows "column name rows = map g (filter sel xs)"
  using assms
proof (induction xs arbitrary: rows)
  case Nil
  then show ?case by (simp add: column_def)
next
  case (Cons x xs)
  from Cons.prems(1) obtain r1 rs where b: "body x = Inr r1" and t: "for_rows body xs = Inr rs"
    and rows: "rows = r1 @ rs"
    by (auto simp: ebind_eq_Inr)
  have h: "column name r1 = (if sel x then [g x] else [])"
    by (rule Cons.prems(2) [OF _ b]) simp
  have "column name rs = map g (filter sel xs)"
    by (rule Cons.IH [OF t]) (rule Cons.prems(2), simp_all)
  with h rows show ?case by (simp add: column_append)
qed

lemma distinct_enumerate_keys:
  assumes "\<And>i j. h i = h j \<Longrightarrow> i = j"
  shows "distinct (map (\<lambda>ix. h (fst ix)) (filter sel (enumerate n xs)))"
proof -
  let ?ys = "filter sel (enumerate n xs)"
  have "distinct (map fst (enumerate n xs))" by simp
  then have d: "distinct (map fst ?ys)"
    by (rule distinct_map_filter)
  have i: "inj_on h (set (map fst ?ys))"
    using assms by (auto intro: inj_onI)
  have d2: "distinct (map h (map fst ?ys))"
    by (rule iffD2 [OF distinct_map]) (intro conjI d i)
  have eq: "map (\<lambda>ix. h (fst ix)) ?ys = map h (map fst ?ys)"
    by (simp add: comp_def)
  show ?thesis unfolding eq by (rule d2)
qed

lemma point_row_column:
  "point_row rp cid base ix = Inr rs
     \<Longrightarrow> column ''point_id'' rs = (if is_dict (snd ix) then [make_point_id rp cid (fst ix)] else [])"
  by (cases ix; cases "snd ix")
     (auto simp: point_row_def is_dict_def column_def dict_get_def ebind_eq_Inr Let_def)

lemma point_ids_distinct:
  assumes "for_rows (point_row rp cid base) (enumerate n pts) = Inr rows"
  shows "distinct (column ''point_id'' rows)"
proof -
  have "column ''point_id'' rows
      = map (\<lambda>ix. make_point_id rp cid (fst ix)) (filter (\<lambda>ix. is_dict (snd ix)) (enumerate n pts))"
    by (rule for_rows_column [OF assms]) (rule point_row_column)
  moreover have "distinct (map (\<lambda>ix. make_point_id rp cid (fst ix))
      (filter (\<lambda>ix. is_dict (snd ix)) (enumerate n pts)))"
    by (rule distinct_enumerate_keys) (auto simp: make_point_id_def dest: fmt_d_inj)
  ultimately show ?thesis by simp
qed

lemma points_of_function_ids:
  assumes "points_of_function rp relay_id func cs = Inr (rows, cs')"
  shows "distinct (column ''point_id'' rows)"
proof (cases func)
  case (PDict f)
  from assms PDict obtain cn where cn: "curves_nodes_of f = Inr cn"
    by (auto simp: points_of_function_def ebind_eq_Inr)
  obtain cid cs1 where mk:
    "make_curve_id rp relay_id (dget f ''@id'') (first_curve_xml_id cn) 1 cs = (cid, cs1)"
    by (cases "make_curve_id rp relay_id (dget f ''@id'') (first_curve_xml_id cn) 1 cs")
  show ?thesis
  proof (cases "py_truthy (dget f ''CurvePoints'')")
    case False
    with assms PDict cn mk show ?thesis
      by (simp add: points_of_function_def column_def)
  next
    case True
    with assms PDict cn mk obtain base pts where
      "for_rows (point_row rp cid base) (enumerate 1 (ensure_list pts)) = Inr rows"
      by (auto simp: points_of_function_def ebind_eq_Inr Let_def)
    then show ?thesis by (rule point_ids_distinct)
  qed
qed (use assms in \<open>auto simp: points_of_function_def column_def\<close>)

lemma selectivity_id_down:
  "make_selectivity_id rp relay_id func_id ''Downstream'' idx =
     PStr ((''SEL-'' @ py_str rp relay_id @ ''-'' @ py_str rp func_id @ ''-'') @ ''D-'' @ fmt_d 3 idx)"
  by (simp add: make_selectivity_id_def startswith_def py_lower_def lower_char_def)

lemma selectivity_id_up:
  "make_selectivity_id rp relay_id func_id ''Upstream'' idx =
     PStr ((''SEL-'' @ py_str rp relay_id @ ''-'' @ py_str rp func_id @ ''-'') @ ''U-'' @ fmt_d 3 idx)"
  by (simp add: make_selectivity_id_def startswith_def py_lower_def lower_char_def)

lemma downstream_row_column:
  "downstream_row rp relay_id func_id margin_s ix = Inr rs
     \<Longrightarrow> column ''selectivity_id'' rs =
         (if is_dict (snd ix) then [make_selectivity_id rp relay_id func_id ''Downstream'' (fst ix)]
          else [])"
  by (cases ix; cases "snd ix")
     (auto simp: downstream_row_def is_dict_def column_def dict_get_def)

lemma upstream_row_column:
  "upstream_row rp relay_id func_id margin_s ix = Inr rs
     \<Longrightarrow> column ''selectivity_id'' rs =
         (if is_dict (snd ix) then [make_selectivity_id rp relay_id func_id ''Upstream'' (fst ix)]
          else [])"
  by (cases ix; cases "snd ix")
     (auto simp: upstream_row_def is_dict_def column_def dict_get_def)

lemma selectivity_ids_distinct:
  assumes d: "for_rows (downstream_row rp relay_id func_id margin_s) (enumerate n downs) = Inr down"
    and u: "for_rows (upstream_row rp relay_id func_id margin_s) (enumerate m ups) = Inr up"
  shows "distinct (column ''selectivity_id'' (down @ up))"
proof -
  let ?pre = "''SEL-'' @ py_str rp relay_id @ ''-'' @ py_str rp func_id @ ''-''"
  let ?D = "map (\<lambda>ix. PStr (?pre @ ''D-'' @ fmt_d 3 (fst ix)))
              (filter (\<lambda>ix. is_dict (snd ix)) (enumerate n downs))"
  let ?U = "map (\<lambda>ix. PStr (?pre @ ''U-'' @ fmt_d 3 (fst ix)))
              (filter (\<lambda>ix. is_dict (snd ix)) (enumerate m ups))"
  have cd: "column ''selectivity_id'' down = ?D"
    by (rule for_rows_column [OF d]) (simp add: downstream_row_column selectivity_id_down)
  have cu: "column ''selectivity_id'' up = ?U"
    by (rule for_rows_column [OF u]) (simp add: upstream_row_column selectivity_id_up)
  have dd: "distinct ?D"
    by (rule distinct_enumerate_keys) (auto dest: fmt_d_inj)
  have du: "distinct ?U"
    by (rule distinct_enumerate_keys) (auto dest: fmt_d_inj)
  have "set ?D \<inter> set ?U = {}" by auto
  with dd du show ?thesis by (simp add: column_append cd cu)
qed

lemma selectivity_of_function_ids:
  assumes "selectivity_of_function rp relay_id func = Inr rows"
  shows "distinct (column ''selectivity_id'' rows)"
proof (cases func)
  case (PDict f)
  show ?thesis
  proof (cases "py_truthy (dget f ''Selectivity'')")
    case False
    with assms PDict show ?thesis
      by (simp add: selectivity_of_function_def column_def)
  next
    case True
    with assms PDict obtain sb where sb: "dget f ''Selectivity'' = PDict sb"
      by (cases "dget f ''Selectivity''") (auto simp: selectivity_of_function_def)
    with assms PDict True obtain margin_s down up where
      "for_rows (downstream_row rp relay_id (dget f ''@id'') margin_s)
          (enumerate 1 (ensure_list (dget sb ''DownstreamDevice''))) = Inr down"
      "for_rows (upstream_row rp relay_id (dget f ''@id'') margin_s)
          (enumerate 1 (ensure_list (dget sb ''UpstreamDevice''))) = Inr up"
      "rows = down @ up"
      by (auto simp: selectivity_of_function_def ebind_eq_Inr Let_def)
    then show ?thesis by (auto dest: selectivity_ids_distinct)
  qed
qed (use assms in \<open>auto simp: selectivity_of_function_def column_def\<close>)

lemma ct_row_column:
  "ct_row rp relay_id ix = Inr rs \<Longrightarrow> lacks_id (snd ix)
     \<Longrightarrow> column ''ct_id'' rs =
         (if is_dict (snd ix) then [PStr ((''CT-'' @ py_str rp relay_id @ ''-'') @ fmt_d 2 (fst ix))]
          else [])"
  by (cases ix; cases "snd ix")
     (auto simp: ct_row_def is_dict_def lacks_id_def column_def dict_get_def ebind_eq_Inr py_or_def)

lemma parameter_row_column:
  "parameter_row rp relay_id ix = Inr rs \<Longrightarrow> lacks_id (snd ix)
     \<Longrightarrow> column ''parameter_id'' rs =
         (if is_dict (snd ix) then [PStr ((''PAR-'' @ py_str rp relay_id @ ''-'') @ fmt_d 3 (fst ix))]
          else [])"
  by (cases ix; cases "snd ix")
     (auto simp: parameter_row_def is_dict_def lacks_id_def column_def dict_get_def py_or_def
       make_parameter_id_def)

lemma ct_ids_distinct:
  assumes "for_rows (ct_row rp relay_id) (enumerate n cts) = Inr rows"
    and "list_all lacks_id cts"
  shows "distinct (column ''ct_id'' rows)"
proof -
  have "column ''ct_id'' rows
      = map (\<lambda>ix. PStr ((''CT-'' @ py_str rp relay_id @ ''-'') @ fmt_d 2 (fst ix)))
          (filter (\<lambda>ix. is_dict (snd ix)) (enumerate n cts))"
  proof (rule for_rows_column [OF assms(1)])
    fix x rs
    assume x: "x \<in> set (enumerate n cts)" and r: "ct_row rp relay_id x = Inr rs"
    from enumerate_mem [OF x] assms(2) have "lacks_id (snd x)" by (simp add: list_all_iff)
    from ct_row_column [OF r this]
    show "column ''ct_id'' rs =
       (if is_dict (snd x) then [PStr ((''CT-'' @ py_str rp relay_id @ ''-'') @ fmt_d 2 (fst x))]
        else [])" .
  qed
  moreover have "distinct (map (\<lambda>ix. PStr ((''CT-'' @ py_str rp relay_id @ ''-'') @ fmt_d 2 (fst ix)))
          (filter (\<lambda>ix. is_dict (snd ix)) (enumerate n cts)))"
    by (rule distinct_enumerate_keys) (auto dest: fmt_d_inj)
  ultimately show ?thesis by simp
qed

lemma parameter_ids_distinct:
  assumes "for_rows (parameter_row rp relay_id) (enumerate n ps) = Inr rows"
    and "list_all lacks_id ps"
  shows "distinct (column ''parameter_id'' rows)"
proof -
  have "column ''parameter_id'' rows
      = map (\<lambda>ix. PStr ((''PAR-'' @ py_str rp relay_id @ ''-'') @ fmt_d 3 (fst ix)))
          (filter (\<lambda>ix. is_dict (snd ix)) (enumerate n ps))"
  proof (rule for_rows_column [OF assms(1)])
    fix x rs
    assume x: "x \<in> set (enumerate n ps)" and r: "parameter_row rp relay_id x = Inr rs"
    from enumerate_mem [OF x] assms(2) have "lacks_id (snd x)" by (simp add: list_all_iff)
    from parameter_row_column [OF r this]
    show "column ''parameter_id'' rs =
       (if is_dict (snd x) then [PStr ((''PAR-'' @ py_str rp relay_id @ ''-'') @ fmt_d 3 (fst x))]
        else [])" .
  qed
  moreover have "distinct (map (\<lambda>ix. PStr ((''PAR-'' @ py_str rp relay_id @ ''-'') @ fmt_d 3 (fst ix)))
          (filter (\<lambda>ix. is_dict (snd ix)) (enumerate n ps)))"
    by (rule distinct_enumerate_keys) (auto dest: fmt_d_inj)
  ultimately show ?thesis by simp
qed

lemma cts_of_relay_ids:
  assumes "cts_of_relay rp relay = Inr rows" and "nodes_lack_id relay ''CTs'' ''CT''"
  shows "distinct (column ''ct_id'' rows)"
proof (cases relay)
  case (PDict r)
  show ?thesis
  proof (cases "py_truthy (dget r ''CTs'')")
    case False
    with assms PDict show ?thesis by (simp add: cts_of_relay_def column_def)
  next
    case True
    with assms(1) PDict obtain b where b: "dget r ''CTs'' = PDict b"
      by (cases "dget r ''CTs''") (auto simp: cts_of_relay_def py_get_def)
    with assms(1) PDict True have
      "for_rows (ct_row rp (dget r ''@id'')) (enumerate 1 (ensure_list (dget b ''CT''))) = Inr rows"
      by (simp add: cts_of_relay_def py_get_def)
    moreover from assms(2) PDict b have "list_all lacks_id (ensure_list (dget b ''CT''))"
      by (simp add: nodes_lack_id_def)
    ultimately show ?thesis by (rule ct_ids_distinct)
  qed
qed (use assms in \<open>auto simp: cts_of_relay_def\<close>)

lemma parameters_of_relay_ids:
  assumes "parameters_of_relay rp relay = Inr rows"
    and "nodes_lack_id relay ''Parameters'' ''Parameter''"
  shows "distinct (column ''parameter_id'' rows)"
proof (cases relay)
  case (PDict r)
  show ?thesis
  proof (cases "py_truthy (dget r ''Parameters'')")
    case False
    with assms PDict show ?thesis by (simp add: parameters_of_relay_def column_def)
  next
    case True
    with assms(1) PDict obtain b where b: "dget r ''Parameters'' = PDict b"
      by (cases "dget r ''Parameters''") (auto simp: parameters_of_relay_def py_get_def)
    with assms(1) PDict True have
      "for_rows (parameter_row rp (dget r ''@id''))
         (enumerate 1 (ensure_list (dget b ''Parameter''))) = Inr rows"
      by (simp add: parameters_of_relay_def py_get_def)
    moreover from assms(2) PDict b have "list_all lacks_id (ensure_list (dget b ''Parameter''))"
      by (simp add: nodes_lack_id_def)
    ultimately show ?thesis by (rule parameter_ids_distinct)
  qed
qed (use assms in \<open>auto simp: parameters_of_relay_def\<close>)

lemma settings_of_function_key:
  assumes "settings_of_function rp relay_id func = Inr rs" and "r \<in> set rs"
  shows "dget r ''setting_id''
           = PStr ((''SET-'' @ py_str rp relay_id @ ''-'') @ py_str rp (dget r ''function_id''))"
  using assms
  by (cases func)
     (auto simp: settings_of_function_def Let_def ebind_eq_Inr dict_get_def make_setting_id_def
        split: if_splits)

lemma settings_of_relay_ids:
  assumes "settings_of_relay rp relay = Inr rows"
  shows "distinct (column ''setting_id'' rows)
           \<longleftrightarrow> distinct (map (py_str rp) (column ''function_id'' rows))"
proof (cases relay)
  case (PDict r)
  let ?pre = "''SET-'' @ py_str rp (dget r ''@id'') @ ''-''"
  from assms PDict obtain fs where
    loop: "for_rows (settings_of_function rp (dget r ''@id'')) fs = Inr rows"
    by (auto simp: settings_of_relay_def ebind_eq_Inr)
  have key: "dget row ''setting_id'' = PStr (?pre @ py_str rp (dget row ''function_id''))"
    if "row \<in> set rows" for row
  proof -
    from for_rows_mem [OF loop that] obtain func rs
      where "settings_of_function rp (dget r ''@id'') func = Inr rs" and "row \<in> set rs"
      by blast
    then show ?thesis by (rule settings_of_function_key)
  qed
  have "column ''setting_id'' rows
      = map (\<lambda>s. PStr (?pre @ s)) (map (py_str rp) (column ''function_id'' rows))"
    by (simp add: column_def key)
  moreover have "inj_on (\<lambda>s. PStr (?pre @ s)) A" for A
    by (rule inj_onI) simp
  ultimately show ?thesis by (simp only: distinct_map) simp
qed (use assms in \<open>auto simp: settings_of_relay_def\<close>)

text \<open>
  The keys built from the position are pairwise distinct among the rows of one parent:
  the \<^verbatim>\<open>point_id\<close> values of one function's points, the \<^verbatim>\<open>selectivity_id\<close> values of one
  function's edges, the \<^verbatim>\<open>ct_id\<close> values of one relay's CTs and the \<^verbatim>\<open>parameter_id\<close> values
  of one relay's parameters when no node has a natural \<^verbatim>\<open>@id\<close>.  A \<^verbatim>\<open>setting_id\<close> has no
  sequence number: the rows of one relay have pairwise distinct keys exactly when the
  texts of their function ids are pairwise distinct.
\<close>

lemma sibling_keys_distinct:
  "(points_of_function rp relay_id func cs = Inr (rows, cs')
      \<longrightarrow> distinct (column ''point_id'' rows))
   \<and> (selectivity_of_function rp relay_id func = Inr rows
      \<longrightarrow> distinct (column ''selectivity_id'' rows))
   \<and> (cts_of_relay rp relay = Inr rows \<and> nodes_lack_id relay ''CTs'' ''CT''
      \<longrightarrow> distinct (column ''ct_id'' rows))
   \<and> (parameters_of_relay rp relay = Inr rows \<and> nodes_lack_id relay ''Parameters'' ''Parameter''
      \<longrightarrow> distinct (column ''parameter_id'' rows))
   \<and> (settings_of_relay rp relay = Inr rows
      \<longrightarrow> (distinct (column ''setting_id'' rows)
           \<longleftrightarrow> distinct (map (py_str rp) (column ''function_id'' rows))))"
  using points_of_function_ids selectivity_of_function_ids cts_of_relay_ids
    parameters_of_relay_ids settings_of_relay_ids
  by blast

lemma safe_float_text_0_3: "safe_float rp (PStr ''0.3'') = Inr (PFloat (Fin (3 / 10)))"
  by (simp add: safe_float_def text_eval round_range_mid)

text \<open>
  C2.  The specification asks for pairwise distinct primary keys in every table, for
  FunctionSetting rows also when a function has no natural \<^verbatim>\<open>@id\<close>.  The key
  \<^verbatim>\<open>SET-<relayId>-<functionId>\<close> has no sequence number and a missing \<^verbatim>\<open>@id\<close> is replaced
  by the empty text, so a relay with two functions without \<^verbatim>\<open>@id\<close> gets two rows keyed
  \<^verbatim>\<open>SET-R1-\<close>.
\<close>

theorem unnamed_functions_share_setting_id:
  "normalize_function_settings no_repr two_unnamed_functions =
     Inr [[(''setting_id'', PStr ''SET-R1-''), (''function_id'', PStr ''''),
           (''pickup_pu'', PNone), (''pickup_a'', PNone), (''time_dial'', PNone),
           (''min_time_seconds'', PNone), (''thermal_constant'', PNone),
           (''full_load_current'', PNone), (''trip_class'', PNone),
           (''extra_json'', PDict [(''Blocking.enabled'', PStr ''true'')])],
          [(''setting_id'', PStr ''SET-R1-''), (''function_id'', PStr ''''),
           (''pickup_pu'', PNone), (''pickup_a'', PNone), (''time_dial'', PNone),
           (''min_time_seconds'', PNone), (''thermal_constant'', PNone),
           (''full_load_current'', PNone), (''trip_class'', PNone),
           (''extra_json'', PDict [(''Blocking.enabled'', PStr ''false'')])]]
   \<and> map_sum id (column ''setting_id'') (normalize_function_settings no_repr two_unnamed_functions)
       = Inr [PStr ''SET-R1-'', PStr ''SET-R1-'']
   \<and> \<not> distinct [PStr ''SET-R1-'', PStr ''SET-R1-'']"
  by (simp add: normalize_function_settings_def settings_of_relay_def settings_of_function_def
      collect_raw_settings_for_function_def two_unnamed_functions_def relay_functions_def
      py_get_def dict_get_def py_or_def py_str_def set_eval column_def)

text \<open>
  The keys of the specification's scenarios: points of one function, two downstream
  devices under a margin of 0.3 seconds, two CTs and two parameters without \<^verbatim>\<open>@id\<close>.
\<close>

lemma points_example:
  "points_of_function rp (PStr ''R1'') (PDict points_only_function) ID_COUNTERS =
     Inr ([[(''point_id'', PStr ''PT-CUR-R1-F1-01-001''), (''curve_id'', PStr ''CUR-R1-F1-01''),
            (''base'', PNone), (''multiple'', PFloat (Fin 5)),
            (''time_seconds'', PFloat (Fin (5 / 4))), (''amps'', PNone), (''volts'', PNone)]],
          ID_COUNTERS)"
  by (simp add: points_of_function_def point_row_def points_only_function_def py_get_def
      dict_get_def dict_has_def py_str_def fmt_eval curve_eval safe_float_text_5
      safe_float_text_1_25)

lemma selectivity_example:
  "selectivity_of_function rp (PStr ''R1'') margin_function =
     Inr [[(''selectivity_id'', PStr ''SEL-R1-F1-D-001''), (''function_id'', PStr ''F1''),
           (''upstream_device'', PNone), (''downstream_device'', PStr ''D1''),
           (''element'', PNone), (''coordination_margin'', PFloat (Fin (3 / 10)))],
          [(''selectivity_id'', PStr ''SEL-R1-F1-D-002''), (''function_id'', PStr ''F1''),
           (''upstream_device'', PNone), (''downstream_device'', PStr ''D2''),
           (''element'', PNone), (''coordination_margin'', PFloat (Fin (3 / 10)))]]"
  by (simp add: selectivity_of_function_def margin_function_def downstream_row_def
      upstream_row_def py_get_def dict_get_def py_str_def fmt_eval safe_float_text_0_3
      make_selectivity_id_def startswith_def py_lower_def lower_char_def Let_def)

lemma cts_example:
  "cts_of_relay rp two_cts_relay =
     Inr [[(''relay_id'', PStr ''R1''), (''ct_id'', PStr ''CT-R1-01''), (''location'', PNone),
           (''phase'', PStr ''A''), (''primary_a'', PNone), (''secondary_a'', PNone),
           (''ratio'', PNone), (''class'', PNone), (''burden_va'', PNone), (''core_id'', PNone)],
          [(''relay_id'', PStr ''R1''), (''ct_id'', PStr ''CT-R1-02''), (''location'', PNone),
           (''phase'', PStr ''B''), (''primary_a'', PNone), (''secondary_a'', PNone),
           (''ratio'', PNone), (''class'', PNone), (''burden_va'', PNone), (''core_id'', PNone)]]"
  by (simp add: cts_of_relay_def two_cts_relay_def ct_row_def ct_ratio_def py_get_def dict_get_def
      py_or_def py_str_def fmt_eval safe_float_None Let_def)

lemma parameters_example:
  "parameters_of_relay rp two_parameters_relay =
     Inr [[(''parameter_id'', PStr ''PAR-R1-001''), (''relay_id'', PStr ''R1''),
           (''name'', PStr ''a''), (''group_name'', PNone), (''type'', PNone), (''value'', PNone)],
          [(''parameter_id'', PStr ''PAR-R1-002''), (''relay_id'', PStr ''R1''),
           (''name'', PStr ''b''), (''group_name'', PNone), (''type'', PNone), (''value'', PNone)]]"
  by (simp add: parameters_of_relay_def two_parameters_relay_def parameter_row_def
      make_parameter_id_def py_get_def dict_get_def py_or_def py_str_def fmt_eval Let_def)

lemma settings_example:
  "settings_of_relay rp (hd (function_tree scenario_function)) =
     Inr [setting_row ''SET-R1-F1'' (PFloat (Fin (5 / 4)))
            [(''PickupPerUnit.value'', PStr ''1.25''), (''Blocking.enabled'', PStr ''true'')]]"
  by (simp add: settings_of_relay_def function_tree_def relay_functions_def py_get_def
      dict_get_def settings_of_scenario [unfolded dict_get_def])

end
